theory Spec2Isabelle
  imports Complex_Main
begin

section \<open>Python values, exceptions and the session state\<close>

text \<open>
  The plug-in \<^verbatim>\<open>SK_biped_EasyRig_Plugin.py\<close> is a script over the scene of its host
  application. Its functions are closures of \<^verbatim>\<open>doIt\<close>: they share the lists
  \<^verbatim>\<open>locs\<close>, \<^verbatim>\<open>jnts\<close>, \<^verbatim>\<open>og_root_pos\<close>, \<^verbatim>\<open>ik_jnts_check\<close>, ... and the host scene.
  A session state holds both. A function of the script is a state transformer that either
  returns a value or raises; the state reached when it raises is kept, because Python does
  not undo what was done before the exception.
\<close>

datatype exn =
    Exception string
  | IndexError
  | ValueError
  | TypeError
  | RuntimeError
  | MayaNodeError string

type_synonym vec3 = "rat \<times> rat \<times> rat"

datatype kind = Locator | Joint | Transform | IkHandle | NurbsCurve | Mesh

text \<open>A scene object: \<open>nid\<close> is the identity a PyNode refers to, \<open>nname\<close> its short name,
  \<open>wtrans\<close> and \<open>wrot\<close> its translation and rotation in world space, \<open>lrot\<close> its rotation in
  its own space, \<open>jorient\<close> the orientation of a joint.\<close>

record node =
  nid :: nat
  nname :: string
  nkind :: kind
  nparent :: "nat option"
  wtrans :: vec3
  wrot :: vec3
  lrot :: vec3
  nscale :: vec3
  jorient :: vec3
  ncolor :: "nat option"
  nhidden :: bool

text \<open>An argument of a host command: a name written in the script, or a PyNode.\<close>

datatype ref = Name string | PyNode nat

text \<open>Host commands whose effect is kept as a record of the call.\<close>

datatype cmd =
    CurrentUnit string
  | SetAttr string bool bool
  | IkHandleCmd string string nat nat "string option"
  | SkinClusterCurve "string list" string nat
  | SkinClusterBind nat nat nat
  | SkinClusterUnbind
  | ConnectAttr string string
  | SetHandleAttr string string nat
  | ButtonEnable string bool
  | Constraint string "ref list"
  | Shape string "string list"

record state =
  nodes :: "node list"
  next_id :: nat
  selection :: "nat list"
  log :: "cmd list"
  printed :: "string list"
  locs :: "nat list"
  jnts :: "nat list"
  og_root_pos :: "vec3 list"
  ik_jnts_check :: "nat list"
  basic_ctrl_grp :: "string list"
  null_grp :: "nat list"
  full_ctrl_grp :: "nat list list"
  pose_option :: nat
  hierarchy_option :: nat
  textfields :: "string \<Rightarrow> string"
  skinned :: "nat list"
  host_orient :: "node list \<Rightarrow> nat list \<Rightarrow> string \<Rightarrow> string \<Rightarrow> nat \<Rightarrow> vec3"
  host_reorient :: "node list \<Rightarrow> nat option \<Rightarrow> node \<Rightarrow> vec3"
  host_follow :: "node \<Rightarrow> node \<Rightarrow> node \<Rightarrow> vec3 \<times> vec3"
  host_local_rot :: "node list \<Rightarrow> node \<Rightarrow> vec3"
  host_relative :: "node list \<Rightarrow> node \<Rightarrow> vec3 \<Rightarrow> vec3 \<times> vec3"

text \<open>
  The last five fields are the geometry of the host, which the script never computes
  itself: the orientation the host gives a joint when the joints \<open>ts\<close> are
  oriented with an \<^verbatim>\<open>orientJoint\<close> and a \<^verbatim>\<open>secondaryAxisOrient\<close>, the orientation it gives a joint that gets a new parent, the world translation and rotation of an object after an object above it (or the object
  itself) changed from its old to its new transform, the rotation in its own space of
  an object whose world rotation or parent was set, and the world translation and rotation
  of an object moved by a vector in its own space. They are arbitrary functions: what is proved holds for every host.
\<close>

type_synonym 'a comp = "state \<Rightarrow> (exn + 'a) \<times> state"
type_synonym stmt = "unit comp"

definition ret :: "'a \<Rightarrow> 'a comp" where
  "ret x s = (Inr x, s)"

definition raise :: "exn \<Rightarrow> 'a comp" where
  "raise e s = (Inl e, s)"

definition bind :: "'a comp \<Rightarrow> ('a \<Rightarrow> 'b comp) \<Rightarrow> 'b comp" where
  "bind f g s = (case f s of (Inl e, s') \<Rightarrow> (Inl e, s') | (Inr x, s') \<Rightarrow> g x s')"

definition skip :: stmt where
  "skip = ret ()"

fun seq :: "stmt list \<Rightarrow> stmt" where
  "seq [] = skip"
| "seq (f # fs) = bind f (\<lambda>_. seq fs)"

definition for_each :: "'a list \<Rightarrow> ('a \<Rightarrow> stmt) \<Rightarrow> stmt" where
  "for_each xs body = seq (map body xs)"

definition when_do :: "bool \<Rightarrow> stmt \<Rightarrow> stmt" where
  "when_do b f = (if b then f else skip)"

definition modify :: "(state \<Rightarrow> state) \<Rightarrow> stmt" where
  "modify f s = (Inr (), f s)"

definition query :: "(state \<Rightarrow> 'a) \<Rightarrow> 'a comp" where
  "query f s = (Inr (f s), s)"

definition print :: "string \<Rightarrow> stmt" where
  "print msg = modify (\<lambda>s. s\<lparr>printed := printed s @ [msg]\<rparr>)"

definition emit :: "cmd \<Rightarrow> stmt" where
  "emit c = modify (\<lambda>s. s\<lparr>log := log s @ [c]\<rparr>)"

subsection \<open>Python lists and strings\<close>

definition py_index :: "'a list \<Rightarrow> nat \<Rightarrow> 'a comp" where
  "py_index xs i = (if i < length xs then ret (xs ! i) else raise IndexError)"

definition py_slice :: "'a list \<Rightarrow> nat \<Rightarrow> nat \<Rightarrow> 'a list" where
  "py_slice xs a b = take (b - a) (drop a xs)"

definition py_del_slice :: "'a list \<Rightarrow> nat \<Rightarrow> nat \<Rightarrow> 'a list" where
  "py_del_slice xs a b = (if a < b then take a xs @ drop b xs else xs)"

text \<open>\<^verbatim>\<open>str.split(sep)\<close> for a non-empty separator; every call of the script passes a
  constant, non-empty separator.\<close>

function split_from :: "string \<Rightarrow> string \<Rightarrow> string \<Rightarrow> string list" where
  "split_from sep cur [] = [rev cur]"
| "split_from sep cur (c # cs) =
     (if sep \<noteq> [] \<and> take (length sep) (c # cs) = sep
      then rev cur # split_from sep [] (drop (length sep) (c # cs))
      else split_from sep (c # cur) cs)"
  by pat_completeness auto
termination
  by (relation "measure (\<lambda>(sep, cur, s). length s)") auto

definition py_split :: "string \<Rightarrow> string \<Rightarrow> string list" where
  "py_split s sep = split_from sep [] s"

section \<open>The host scene\<close>

text \<open>
  The host application is not part of the repository. The script only issues commands to
  it, so the host is modelled as far as the script observes it: a scene of named objects
  with an identity, a kind, a parent, world-space translation and rotation, a scale, a
  joint orientation, an override colour and a visibility, and a log of the commands whose
  effect is not a change of that graph (attribute locks, constraints, IK handles, skin
  clusters, curve shaping). Short names may be shared by several objects, as in the host.
  A command that names an object which does not exist, or a name that several objects
  share, raises, as the host's commands do.
\<close>

definition ls :: "state \<Rightarrow> ref \<Rightarrow> nat list" where
  "ls s r = (case r of
       Name n \<Rightarrow> map nid (filter (\<lambda>x. nname x = n) (nodes s))
     | PyNode i \<Rightarrow> map nid (filter (\<lambda>x. nid x = i) (nodes s)))"

definition objExists :: "state \<Rightarrow> ref \<Rightarrow> bool" where
  "objExists s r = (ls s r \<noteq> [])"

definition get_node :: "state \<Rightarrow> nat \<Rightarrow> node option" where
  "get_node s i = find (\<lambda>x. nid x = i) (nodes s)"

definition kind_of :: "state \<Rightarrow> nat \<Rightarrow> kind option" where
  "kind_of s i = map_option nkind (get_node s i)"

definition named :: "state \<Rightarrow> string \<Rightarrow> node list" where
  "named s n = filter (\<lambda>x. nname x = n) (nodes s)"

definition resolve :: "ref \<Rightarrow> nat comp" where
  "resolve r s = (case ls s r of
       [] \<Rightarrow> (Inl (MayaNodeError ''No object matches name''), s)
     | [i] \<Rightarrow> (Inr i, s)
     | _ \<Rightarrow> (Inl (MayaNodeError ''More than one object matches name''), s))"

fun resolve_all :: "ref list \<Rightarrow> (nat list) comp" where
  "resolve_all [] = ret []"
| "resolve_all (r # rs) = bind (resolve r) (\<lambda>i. bind (resolve_all rs) (\<lambda>is. ret (i # is)))"

definition upd_node :: "nat \<Rightarrow> (node \<Rightarrow> node) \<Rightarrow> state \<Rightarrow> state" where
  "upd_node i f s = s\<lparr>nodes := map (\<lambda>x. if nid x = i then f x else x) (nodes s)\<rparr>"

definition upd_nodes :: "nat list \<Rightarrow> (node \<Rightarrow> node) \<Rightarrow> state \<Rightarrow> state" where
  "upd_nodes is f s = s\<lparr>nodes := map (\<lambda>x. if nid x \<in> set is then f x else x) (nodes s)\<rparr>"

text \<open>The name the PyNode of an object prints as, used where the script concatenates or
  splits a PyNode. The model uses the short name.\<close>

definition node_name :: "ref \<Rightarrow> string comp" where
  "node_name r = (case r of
       Name n \<Rightarrow> ret n
     | PyNode i \<Rightarrow> (\<lambda>s. case get_node s i of
                          None \<Rightarrow> (Inl (MayaNodeError ''No object matches name''), s)
                        | Some x \<Rightarrow> (Inr (nname x), s)))"

text \<open>The host never gives two objects under one parent the same name: a new object
  whose name is taken gets the name with the first free number appended.\<close>

fun digit_char :: "nat \<Rightarrow> char" where
  "digit_char n = (''0123456789'' ! (n mod 10))"

function show_nat :: "nat \<Rightarrow> string" where
  "show_nat n = (if n < 10 then [digit_char n] else show_nat (n div 10) @ [digit_char n])"
  by pat_completeness auto
termination
  by (relation "measure id") auto

definition fresh_name :: "state \<Rightarrow> string \<Rightarrow> string" where
  "fresh_name s n =
     (if named s n = [] then n
      else case filter (\<lambda>c. named s c = []) (map (\<lambda>k. n @ show_nat k) [1 ..< length (nodes s) + 2]) of
             [] \<Rightarrow> n
           | c # _ \<Rightarrow> c)"

definition blank_node :: "nat \<Rightarrow> string \<Rightarrow> kind \<Rightarrow> nat option \<Rightarrow> node" where
  "blank_node i n k p =
     \<lparr>nid = i, nname = n, nkind = k, nparent = p, wtrans = (0, 0, 0), wrot = (0, 0, 0),
      lrot = (0, 0, 0), nscale = (1, 1, 1), jorient = (0, 0, 0), ncolor = None, nhidden = False\<rparr>"

text \<open>Creating an object appends it to the scene and selects it.\<close>

definition create_node :: "string \<Rightarrow> kind \<Rightarrow> nat option \<Rightarrow> nat comp" where
  "create_node n k p s =
     (let i = next_id s
      in (Inr i, s\<lparr>nodes := nodes s @ [blank_node i (fresh_name s n) k p],
                   next_id := Suc i, selection := [i]\<rparr>))"

definition select_clear :: stmt where
  "select_clear = modify (\<lambda>s. s\<lparr>selection := []\<rparr>)"

text \<open>\<^verbatim>\<open>pm.select(x, replace=True)\<close> and \<^verbatim>\<open>pm.select(x, add=True)\<close>: a name that
  matches nothing raises the host's \<^verbatim>\<open>TypeError\<close>.\<close>

definition select_replace :: "ref \<Rightarrow> stmt" where
  "select_replace r s = (if ls s r = [] then (Inl TypeError, s)
                         else (Inr (), s\<lparr>selection := ls s r\<rparr>))"


text \<open>A command that acts on the selection raises when nothing is selected.\<close>

definition on_selection :: "(node \<Rightarrow> node) \<Rightarrow> stmt" where
  "on_selection f s = (if selection s = [] then (Inl RuntimeError, s)
                       else (Inr (), upd_nodes (selection s) f s))"

definition on_object :: "ref \<Rightarrow> (node \<Rightarrow> node) \<Rightarrow> stmt" where
  "on_object r f = bind (resolve r) (\<lambda>i. modify (upd_node i f))"

text \<open>\<^verbatim>\<open>pm.parent(c1, ..., cn, p)\<close>: every child keeps its world transform and becomes the
  last child of \<open>p\<close>; the scene list keeps siblings in the order they were parented. A joint
  that gets a new parent gets the joint orientation the host computes for it, any other
  object the rotation in its own space that the host computes.
  \<^verbatim>\<open>pm.parent(c, world=True)\<close> is \<open>parent_world\<close>.\<close>

definition set_parent :: "state \<Rightarrow> nat option \<Rightarrow> node \<Rightarrow> node" where
  "set_parent s p x =
     (if nkind x = Joint then x\<lparr>nparent := p, jorient := host_reorient s (nodes s) p x\<rparr>
      else x\<lparr>nparent := p, lrot := host_local_rot s (nodes s) (x\<lparr>nparent := p\<rparr>)\<rparr>)"

definition reparent :: "nat option \<Rightarrow> nat \<Rightarrow> state \<Rightarrow> state" where
  "reparent p i s =
     s\<lparr>nodes := filter (\<lambda>x. nid x \<noteq> i) (nodes s)
                @ map (set_parent s p) (filter (\<lambda>x. nid x = i) (nodes s))\<rparr>"

definition parent_to :: "ref list \<Rightarrow> ref \<Rightarrow> stmt" where
  "parent_to cs p =
     bind (resolve_all cs) (\<lambda>is. bind (resolve p) (\<lambda>j.
       modify (\<lambda>s. (fold (reparent (Some j)) is s)\<lparr>selection := is\<rparr>)))"

definition parent_world :: "ref list \<Rightarrow> stmt" where
  "parent_world cs =
     bind (resolve_all cs) (\<lambda>is.
       modify (\<lambda>s. (fold (reparent None) is s)\<lparr>selection := is\<rparr>))"

text \<open>\<^verbatim>\<open>pm.listRelatives(xs, parent=True)\<close>: the parents of the given objects; the host
  reads the selection when it is given no object.\<close>

definition listRelatives_parent :: "nat list \<Rightarrow> (nat list) comp" where
  "listRelatives_parent xs s =
     (let targets = (if xs = [] then selection s else xs)
      in if \<exists>i \<in> set targets. get_node s i = None
         then (Inl (MayaNodeError ''No object matches name''), s)
         else (Inr (concat (map (\<lambda>i. case get_node s i of
                                     Some x \<Rightarrow> (case nparent x of Some p \<Rightarrow> [p] | None \<Rightarrow> [])
                                   | None \<Rightarrow> []) targets)), s))"

subsection \<open>Hierarchy\<close>

definition children_of :: "node list \<Rightarrow> nat \<Rightarrow> nat list" where
  "children_of ns i = map nid (filter (\<lambda>x. nparent x = Some i) ns)"

text \<open>The objects above an object, nearest first: the walk up the parents, at most as long
  as the scene has objects.\<close>

primrec up :: "node list \<Rightarrow> nat \<Rightarrow> nat \<Rightarrow> nat list" where
  "up ns 0 i = []"
| "up ns (Suc k) i =
     (case find (\<lambda>x. nid x = i) ns of
        None \<Rightarrow> []
      | Some x \<Rightarrow> (case nparent x of None \<Rightarrow> [] | Some p \<Rightarrow> p # up ns k p))"

definition ancestors :: "state \<Rightarrow> nat \<Rightarrow> nat list" where
  "ancestors s i = up (nodes s) (length (nodes s)) i"

definition below :: "state \<Rightarrow> nat list \<Rightarrow> nat \<Rightarrow> bool" where
  "below s D j = list_ex (\<lambda>a. a \<in> set D) (ancestors s j)"

text \<open>The objects \<open>D\<close> with everything below them, and what is properly below one object.\<close>

definition descendants :: "state \<Rightarrow> nat list \<Rightarrow> nat list" where
  "descendants s D = filter (\<lambda>j. j \<in> set D \<or> below s D j) (map nid (nodes s))"

definition proper_descendants :: "state \<Rightarrow> nat \<Rightarrow> nat list" where
  "proper_descendants s i = filter (\<lambda>j. j \<noteq> i \<and> below s [i] j) (map nid (nodes s))"

text \<open>The hierarchy below an object in the order the host lists it: depth first, siblings
  in their order, at most as deep as the scene has objects.\<close>

primrec dfs :: "nat \<Rightarrow> node list \<Rightarrow> nat \<Rightarrow> nat list" where
  "dfs 0 ns i = [i]"
| "dfs (Suc k) ns i = i # concat (map (dfs k ns) (children_of ns i))"

definition hierarchy_of :: "state \<Rightarrow> nat \<Rightarrow> nat list" where
  "hierarchy_of s i = dfs (length (nodes s)) (nodes s) i"

subsection \<open>Transforms\<close>

text \<open>A change of the transform of an object: the object gets its new values, and every
  object below it gets the world translation and rotation the host computes for it.\<close>

definition follow :: "state \<Rightarrow> node \<Rightarrow> node \<Rightarrow> node \<Rightarrow> node" where
  "follow s old new x =
     x\<lparr>wtrans := fst (host_follow s old new x), wrot := snd (host_follow s old new x)\<rparr>"

definition transform :: "nat \<Rightarrow> (node \<Rightarrow> node) \<Rightarrow> state \<Rightarrow> state" where
  "transform i f s =
     (case get_node s i of
        None \<Rightarrow> s
      | Some old \<Rightarrow>
          s\<lparr>nodes := map (\<lambda>x. if nid x = i then f x
                               else if nid x \<in> set (proper_descendants s i)
                                    then follow s old (f old) x else x) (nodes s)\<rparr>)"

definition transform_obj :: "ref \<Rightarrow> (node \<Rightarrow> node) \<Rightarrow> stmt" where
  "transform_obj r f = bind (resolve r) (\<lambda>i. modify (transform i f))"

definition transform_sel :: "(node \<Rightarrow> node) \<Rightarrow> stmt" where
  "transform_sel f s =
     (if selection s = [] then (Inl RuntimeError, s)
      else (Inr (), fold (\<lambda>i. transform i f) (selection s) s))"

text \<open>\<^verbatim>\<open>pm.xform(translation=c)\<close> on the selection, \<^verbatim>\<open>pm.scale(x, y, z)\<close> on the selection
  and on a named object.\<close>

definition xform_sel_translation :: "vec3 \<Rightarrow> stmt" where
  "xform_sel_translation c = transform_sel (\<lambda>x. x\<lparr>wtrans := c\<rparr>)"

definition scale_sel :: "vec3 \<Rightarrow> stmt" where
  "scale_sel v = transform_sel (\<lambda>x. x\<lparr>nscale := v\<rparr>)"

text \<open>\<^verbatim>\<open>pm.xform(obj, query=True, worldSpace=True, translation=True)\<close> (and
  \<^verbatim>\<open>rotation=True\<close>), and \<^verbatim>\<open>pm.xform(obj, worldSpace=True, translation=t, rotation=r)\<close>.\<close>

definition xform_query_translation :: "ref \<Rightarrow> vec3 comp" where
  "xform_query_translation r =
     bind (resolve r) (\<lambda>i s. case get_node s i of
         Some x \<Rightarrow> (Inr (wtrans x), s)
       | None \<Rightarrow> (Inl (MayaNodeError ''No object matches name''), s))"

definition xform_query_rotation :: "ref \<Rightarrow> vec3 comp" where
  "xform_query_rotation r =
     bind (resolve r) (\<lambda>i s. case get_node s i of
         Some x \<Rightarrow> (Inr (wrot x), s)
       | None \<Rightarrow> (Inl (MayaNodeError ''No object matches name''), s))"

definition set_world :: "state \<Rightarrow> vec3 \<Rightarrow> vec3 \<Rightarrow> node \<Rightarrow> node" where
  "set_world s t rot x =
     x\<lparr>wtrans := t, wrot := rot, lrot := host_local_rot s (nodes s) (x\<lparr>wtrans := t, wrot := rot\<rparr>)\<rparr>"

definition xform_ws :: "ref \<Rightarrow> vec3 \<Rightarrow> vec3 \<Rightarrow> stmt" where
  "xform_ws r t rot = bind (resolve r) (\<lambda>i. modify (\<lambda>s. transform i (set_world s t rot) s))"

text \<open>\<^verbatim>\<open>pm.xform(obj, objectSpace=True, rotation=[0, 0, 0])\<close> zeroes the rotation of the
  object in its own space; its world transform is what the host computes for an object
  that follows this change.\<close>

definition zero_rotation :: "state \<Rightarrow> node \<Rightarrow> node" where
  "zero_rotation s x = (follow s x (x\<lparr>lrot := (0, 0, 0)\<rparr>) x)\<lparr>lrot := (0, 0, 0)\<rparr>"

definition xform_os_rotation_zero :: "ref \<Rightarrow> stmt" where
  "xform_os_rotation_zero r =
     bind (resolve r) (\<lambda>i. modify (\<lambda>s. transform i (zero_rotation s) s))"

text \<open>\<^verbatim>\<open>pm.xform(obj, translation=t, absolute=True)\<close> on an object whose parent is not
  moved: its translation becomes \<open>t\<close>.\<close>

definition xform_translation_abs :: "ref \<Rightarrow> vec3 \<Rightarrow> stmt" where
  "xform_translation_abs r t = transform_obj r (\<lambda>x. x\<lparr>wtrans := t\<rparr>)"

text \<open>\<^verbatim>\<open>pm.xform(o1, ..., translation=v, relative=True, objectSpace=True, ...)\<close> moves
  each object by \<open>v\<close> in its own space.\<close>

definition move_relative :: "state \<Rightarrow> vec3 \<Rightarrow> node \<Rightarrow> node" where
  "move_relative s v x =
     x\<lparr>wtrans := fst (host_relative s (nodes s) x v), wrot := snd (host_relative s (nodes s) x v)\<rparr>"

definition xform_relative :: "ref list \<Rightarrow> vec3 \<Rightarrow> stmt" where
  "xform_relative rs v =
     bind (resolve_all rs) (\<lambda>ids. modify (\<lambda>s. fold (\<lambda>i t. transform i (move_relative t v) t) ids s))"

text \<open>\<^verbatim>\<open>pm.parent(c, p, relative=True)\<close>: the child keeps its values in its own space, so a
  child with none gets the world transform of its parent.\<close>

definition parent_relative :: "ref \<Rightarrow> ref \<Rightarrow> stmt" where
  "parent_relative c p =
     bind (resolve c) (\<lambda>i. bind (resolve p) (\<lambda>j. modify (\<lambda>s.
       case get_node s j of
         None \<Rightarrow> s
       | Some a \<Rightarrow> transform i (\<lambda>x. x\<lparr>wtrans := wtrans a, wrot := wrot a\<rparr>) (reparent (Some j) i s))))"

text \<open>\<^verbatim>\<open>pm.delete(pm.pointConstraint(src, dst))\<close> leaves \<open>dst\<close> at the world position of
  \<open>src\<close>; with \<^verbatim>\<open>pm.parentConstraint\<close> also at its world rotation.\<close>

definition snap_point :: "ref \<Rightarrow> ref \<Rightarrow> stmt" where
  "snap_point src dst =
     bind (resolve src) (\<lambda>i. bind (resolve dst) (\<lambda>j. modify (\<lambda>s.
       case get_node s i of
         None \<Rightarrow> s
       | Some a \<Rightarrow> transform j (\<lambda>x. x\<lparr>wtrans := wtrans a\<rparr>) s)))"

definition snap_parent :: "ref \<Rightarrow> ref \<Rightarrow> stmt" where
  "snap_parent src dst =
     bind (resolve src) (\<lambda>i. bind (resolve dst) (\<lambda>j. modify (\<lambda>s.
       case get_node s i of
         None \<Rightarrow> s
       | Some a \<Rightarrow> transform j (set_world s (wtrans a) (wrot a)) s)))"

subsection \<open>Creating, deleting, hiding\<close>

text \<open>\<^verbatim>\<open>pm.group(name=n, world=True, empty=True)\<close>, \<^verbatim>\<open>pm.group(name=n, empty=True)\<close> and
  \<^verbatim>\<open>pm.group(name=n, parent=p, empty=True)\<close>; \<^verbatim>\<open>pm.spaceLocator(name=n)\<close>.\<close>

definition group_empty :: "string \<Rightarrow> nat comp" where
  "group_empty n = create_node n Transform None"

definition group_empty_under :: "string \<Rightarrow> ref \<Rightarrow> nat comp" where
  "group_empty_under n p = bind (resolve p) (\<lambda>j. create_node n Transform (Some j))"

definition spaceLocator :: "string \<Rightarrow> nat comp" where
  "spaceLocator n = create_node n Locator None"

text \<open>\<^verbatim>\<open>pm.joint(name=n)\<close>: the new joint is a child of the selected object, and at world
  level when nothing is selected.\<close>

definition joint_create :: "string \<Rightarrow> nat comp" where
  "joint_create n s =
     create_node n Joint (case selection s of [] \<Rightarrow> None | _ \<Rightarrow> Some (last (selection s))) s"

text \<open>\<^verbatim>\<open>pm.delete(a, b, ...)\<close> removes the objects with everything below them.\<close>

definition remove_nodes :: "nat list \<Rightarrow> state \<Rightarrow> state" where
  "remove_nodes is s =
     (let D = descendants s is
      in s\<lparr>nodes := filter (\<lambda>x. nid x \<notin> set D) (nodes s),
           selection := filter (\<lambda>i. i \<notin> set D) (selection s)\<rparr>)"

definition delete_objs :: "ref list \<Rightarrow> stmt" where
  "delete_objs rs = bind (resolve_all rs) (\<lambda>is. modify (remove_nodes is))"

definition hide :: "ref list \<Rightarrow> stmt" where
  "hide rs = bind (resolve_all rs) (\<lambda>is. modify (upd_nodes is (\<lambda>x. x\<lparr>nhidden := True\<rparr>)))"

definition showHidden :: "ref list \<Rightarrow> stmt" where
  "showHidden rs = bind (resolve_all rs) (\<lambda>is. modify (upd_nodes is (\<lambda>x. x\<lparr>nhidden := False\<rparr>)))"

subsection \<open>Joint orientation\<close>

text \<open>\<^verbatim>\<open>pm.joint(j1, ..., edit=True, orientJoint=oj, secondaryAxisOrient=sao, ...)\<close>: the
  host computes the orientation of the joints; since it keeps what is below them in place,
  the orientation of every joint below them is the host's as well. No other object changes.
  With no joint given the command acts on the selection. The flag \<^verbatim>\<open>children=True\<close> is
  part of the \<open>oj\<close> text handed to the host.\<close>

definition orient_nodes :: "nat list \<Rightarrow> string \<Rightarrow> string \<Rightarrow> state \<Rightarrow> state" where
  "orient_nodes ts oj sao s =
     s\<lparr>nodes := map (\<lambda>x. if nid x \<in> set (descendants s ts)
                          then x\<lparr>jorient := host_orient s (nodes s) ts oj sao (nid x)\<rparr>
                          else x) (nodes s)\<rparr>"

definition joint_orient :: "ref list \<Rightarrow> string \<Rightarrow> string \<Rightarrow> stmt" where
  "joint_orient rs oj sao = bind (resolve_all rs) (\<lambda>ts. modify (orient_nodes ts oj sao))"

definition joint_orient_sel :: "string \<Rightarrow> string \<Rightarrow> stmt" where
  "joint_orient_sel oj sao s =
     (if selection s = [] then (Inl RuntimeError, s)
      else (Inr (), orient_nodes (selection s) oj sao s))"

text \<open>\<^verbatim>\<open>pm.joint(j, query=True, orientation=True)\<close> and
  \<^verbatim>\<open>pm.joint(j, edit=True, orientation=v)\<close>: the joint gets the orientation \<open>v\<close>, the
  joints below it the orientation the host computes.\<close>

definition joint_query_orientation :: "ref \<Rightarrow> vec3 comp" where
  "joint_query_orientation r =
     bind (resolve r) (\<lambda>i s. case get_node s i of
         Some x \<Rightarrow> (Inr (jorient x), s)
       | None \<Rightarrow> (Inl (MayaNodeError ''No object matches name''), s))"

definition joint_set_orientation :: "ref \<Rightarrow> vec3 \<Rightarrow> stmt" where
  "joint_set_orientation r v =
     bind (resolve r) (\<lambda>i. modify (\<lambda>s.
       s\<lparr>nodes := map (\<lambda>x. if nid x = i then x\<lparr>jorient := v\<rparr>
                            else if nid x \<in> set (proper_descendants s i)
                                 then x\<lparr>jorient := host_orient s (nodes s) [i] ''orientation'' [] (nid x)\<rparr>
                                 else x) (nodes s)\<rparr>))"

text \<open>\<^verbatim>\<open>pm.joint(j, query=True, position=True, absolute=True)\<close>.\<close>

definition joint_query_position :: "ref \<Rightarrow> vec3 comp" where
  "joint_query_position r = xform_query_translation r"

text \<open>\<^verbatim>\<open>pm.listRelatives(allDescendents=True, children=True, type='joint')\<close> of the
  selection.\<close>

definition listRelatives_joints_sel :: "(nat list) comp" where
  "listRelatives_joints_sel s =
     (Inr (filter (\<lambda>j. j \<notin> set (selection s) \<and> kind_of s j = Some Joint)
             (descendants s (selection s))), s)"

subsection \<open>Duplicating, listing and renaming hierarchies\<close>

text \<open>\<^verbatim>\<open>pm.listRelatives(x, allDescendents=True)\<close> lists what is below \<open>x\<close>, every object
  after the objects below it.\<close>

primrec post :: "nat \<Rightarrow> node list \<Rightarrow> nat \<Rightarrow> nat list" where
  "post 0 ns i = [i]"
| "post (Suc k) ns i = concat (map (post k ns) (children_of ns i)) @ [i]"

definition listRelatives_allDescendents :: "ref \<Rightarrow> (nat list) comp" where
  "listRelatives_allDescendents r =
     bind (resolve r) (\<lambda>i s.
       (Inr (concat (map (post (length (nodes s)) (nodes s)) (children_of (nodes s) i))), s))"

text \<open>\<^verbatim>\<open>pm.select(x, hierarchy=True, replace=True)\<close> followed by \<^verbatim>\<open>pm.ls(selection=True)\<close>.\<close>

definition select_hierarchy :: "ref \<Rightarrow> stmt" where
  "select_hierarchy r s = (case ls s r of
       [] \<Rightarrow> (Inl TypeError, s)
     | i # _ \<Rightarrow> (Inr (), s\<lparr>selection := concat (map (hierarchy_of s) (ls s r))\<rparr>))"

text \<open>\<^verbatim>\<open>pm.duplicate(x, returnRootsOnly=True)\<close>: a copy of \<open>x\<close> and of everything below it,
  with new identities; the copies keep their names, except the copy of \<open>x\<close>, whose name is
  taken beside \<open>x\<close> and gets a number.\<close>

definition copy_node :: "state \<Rightarrow> nat \<Rightarrow> (nat \<times> nat) list \<Rightarrow> nat \<Rightarrow> node list" where
  "copy_node s rt ren old =
     (case (get_node s old, map_of ren old) of
        (Some x, Some new) \<Rightarrow>
          [x\<lparr>nid := new,
             nname := (if old = rt then fresh_name s (nname x) else nname x),
             nparent := (if old = rt then nparent x
                         else (case nparent x of
                                 None \<Rightarrow> None
                               | Some p \<Rightarrow> (case map_of ren p of Some q \<Rightarrow> Some q | None \<Rightarrow> Some p)))\<rparr>]
      | _ \<Rightarrow> [])"

definition duplicate :: "ref \<Rightarrow> nat comp" where
  "duplicate r =
     bind (resolve r) (\<lambda>rt s.
       let olds = remdups (hierarchy_of s rt);
           ren = zip olds [next_id s ..< next_id s + length olds]
       in (Inr (next_id s),
           s\<lparr>nodes := nodes s @ concat (map (copy_node s rt ren) olds),
             next_id := next_id s + length olds,
             selection := [next_id s]\<rparr>))"

text \<open>\<^verbatim>\<open>pm.rename(x, n)\<close>; the host makes the new name unique.\<close>

definition rename :: "ref \<Rightarrow> string \<Rightarrow> nat comp" where
  "rename r n =
     bind (resolve r) (\<lambda>i s. (Inr i, upd_node i (\<lambda>x. x\<lparr>nname := fresh_name s n\<rparr>) s))"

subsection \<open>Commands kept as records\<close>

text \<open>Constraints, attribute connections and attributes of an IK handle act on named
  objects: the objects must exist, the call is recorded. The shaping of a controller curve
  (rotate, scale, move, freeze, pivots, control vertices) is recorded with the name of the
  curve; its numbers are not kept.\<close>

definition constraint :: "string \<Rightarrow> ref list \<Rightarrow> stmt" where
  "constraint k rs = bind (resolve_all rs) (\<lambda>_. emit (Constraint k rs))"

definition attr_object :: "string \<Rightarrow> string" where
  "attr_object a = takeWhile (\<lambda>c. c \<noteq> CHR ''.'') a"

definition connectAttr :: "string \<Rightarrow> string \<Rightarrow> stmt" where
  "connectAttr src dst =
     bind (resolve (Name (attr_object src))) (\<lambda>_.
     bind (resolve (Name (attr_object dst))) (\<lambda>_. emit (ConnectAttr src dst)))"

definition set_handle_attr :: "string \<Rightarrow> string \<Rightarrow> nat \<Rightarrow> stmt" where
  "set_handle_attr h a v = bind (resolve (Name h)) (\<lambda>_. emit (SetHandleAttr h a v))"

definition shape_cmd :: "string \<Rightarrow> ref \<Rightarrow> stmt" where
  "shape_cmd c r = bind (resolve r) (\<lambda>_. bind (node_name r) (\<lambda>n. emit (Shape c [n])))"

definition addAttr :: "string \<Rightarrow> string \<Rightarrow> stmt" where
  "addAttr n a = bind (resolve (Name n)) (\<lambda>_. emit (Shape ''addAttr'' [n, a]))"

text \<open>\<^verbatim>\<open>pm.curve(name=n, ...)\<close> and \<^verbatim>\<open>pm.circle(name=n)\<close> create a curve at world level.\<close>

definition curve_create :: "string \<Rightarrow> stmt" where
  "curve_create n = bind (create_node n NurbsCurve None) (\<lambda>_. skip)"

text \<open>\<^verbatim>\<open>pm.ikHandle(name, solver="ikSplineSolver", twistType, startJoint, endEffector)\<close>:
  besides the handle the host creates the curve of the spline, as the last child of the
  parent of the start joint.\<close>

definition ikHandle_spline :: "string \<Rightarrow> string \<Rightarrow> nat \<Rightarrow> nat \<Rightarrow> stmt" where
  "ikHandle_spline name twistType startJoint endEffector =
     bind (resolve (PyNode startJoint)) (\<lambda>_.
     bind (resolve (PyNode endEffector)) (\<lambda>_.
     bind (query (\<lambda>s. case get_node s startJoint of Some x \<Rightarrow> nparent x | None \<Rightarrow> None)) (\<lambda>p.
     bind (create_node ''curve1'' NurbsCurve p) (\<lambda>_.
     bind (create_node name IkHandle None) (\<lambda>_.
       emit (IkHandleCmd name ''ikSplineSolver'' startJoint endEffector (Some twistType)))))))"

text \<open>\<^verbatim>\<open>pm.skinCluster(j1, ..., jn, curve, maximumInfluences=m)\<close>.\<close>

definition skinCluster_curve :: "string list \<Rightarrow> string \<Rightarrow> nat \<Rightarrow> stmt" where
  "skinCluster_curve js c m =
     bind (resolve_all (map Name (js @ [c]))) (\<lambda>_. emit (SkinClusterCurve js c m))"

section \<open>The script\<close>

subsection \<open>Existence checks, attribute locks, colours\<close>

definition sq :: string where
  "sq = [CHR 0x27]"

definition ref_str :: "state \<Rightarrow> ref \<Rightarrow> string" where
  "ref_str s r = (case r of
       Name n \<Rightarrow> n
     | PyNode i \<Rightarrow> (case get_node s i of Some x \<Rightarrow> nname x | None \<Rightarrow> []))"

definition object_check :: "ref \<Rightarrow> stmt" where
  "object_check var_string s =
     (let var_check = ls s var_string
      in if \<not> objExists s var_string
         then (Inl (Exception (''!!! Error: '' @ sq @ ref_str s var_string @ sq @ '' doesn'' @ sq @ ''t exist.'')), s)
         else if length var_check > 1
         then (Inl (Exception (''!!! Error: More than one object called '' @ sq @ ref_str s var_string @ sq @ '' exist.'')), s)
         else (Inr (), s))"

definition non_object_check :: "ref \<Rightarrow> stmt" where
  "non_object_check non_var_string s =
     (if objExists s non_var_string
      then (Inl (Exception (''!!! Error: '' @ sq @ ref_str s non_var_string @ sq @ '' already exists.'')), s)
      else (Inr (), s))"

definition setAttr_lock :: "ref \<Rightarrow> string \<Rightarrow> bool \<Rightarrow> bool \<Rightarrow> stmt" where
  "setAttr_lock obj attr lock key =
     bind (resolve obj) (\<lambda>_. bind (node_name obj) (\<lambda>n. emit (SetAttr (n @ attr) lock key)))"

definition lock_attr :: "ref \<Rightarrow> bool list \<Rightarrow> bool \<Rightarrow> bool \<Rightarrow> stmt" where
  "lock_attr l_obj trans_check lock key =
     (let transforms = [''.translate'', ''.rotate'', ''.scale''];
          axis = [''X'', ''Y'', ''Z'']
      in seq [object_check l_obj,
              for_each axis (\<lambda>a.
                for_each [0 ..< length transforms] (\<lambda>t.
                  bind (py_index trans_check t) (\<lambda>b.
                    when_do b (setAttr_lock l_obj (transforms ! t @ a) lock key))))])"

definition recolor :: "ref \<Rightarrow> nat \<Rightarrow> stmt" where
  "recolor re_obj recol =
     seq [object_check re_obj,
          on_object re_obj (\<lambda>x. x\<lparr>ncolor := Some recol\<rparr>)]"

text \<open>\<^verbatim>\<open>parenting(list)\<close>: in every group, each element becomes a child of the one before it.\<close>

definition parenting :: "ref list list \<Rightarrow> stmt" where
  "parenting list =
     for_each list (\<lambda>grp.
       for_each [1 ..< length grp] (\<lambda>loc. parent_to [grp ! loc] (grp ! (loc - 1))))"

subsection \<open>IK handles\<close>

text \<open>\<^verbatim>\<open>pm.ikHandle(name, solver, startJoint, endEffector)\<close>: the host creates the handle at
  world level; both joints must exist.\<close>

definition ikHandle :: "string \<Rightarrow> string \<Rightarrow> nat \<Rightarrow> nat \<Rightarrow> string option \<Rightarrow> stmt" where
  "ikHandle name solver startJoint endEffector twistType =
     bind (resolve (PyNode startJoint)) (\<lambda>_.
     bind (resolve (PyNode endEffector)) (\<lambda>_.
     bind (create_node name IkHandle None) (\<lambda>_.
       emit (IkHandleCmd name solver startJoint endEffector twistType))))"

text \<open>\<^verbatim>\<open>create_ik(end, solv)\<close>. The script compares \<^verbatim>\<open>solv is "sc"\<close>; every call passes a
  literal, for which identity and equality of strings agree.\<close>

definition create_ik :: "nat \<Rightarrow> string \<Rightarrow> stmt" where
  "create_ik endj solv =
     bind (node_name (PyNode endj)) (\<lambda>end_name.
     let suf = py_split end_name ''ik_'' in
     bind (listRelatives_parent [endj]) (\<lambda>end_parent.
     bind (listRelatives_parent end_parent) (\<lambda>startRP.
     bind (listRelatives_parent [endj]) (\<lambda>startSC.
     seq [when_do (solv = ''sc'')
            (bind (py_index suf 1) (\<lambda>sf. bind (py_index startSC 0) (\<lambda>st.
               ikHandle (''hdl_'' @ sf) ''ikSCsolver'' st endj None))),
          when_do (solv = ''rp'')
            (bind (py_index suf 1) (\<lambda>sf. bind (py_index startRP 0) (\<lambda>st.
               ikHandle (''hdl_'' @ sf) ''ikRPsolver'' st endj None))),
          bind (py_index suf 1) (\<lambda>sf.
            parent_to [Name (''hdl_'' @ sf)] (Name ''grp_rig_system''))]))))"

subsection \<open>Well-formed scenes and readings of a scene\<close>

text \<open>In a scene of the host every object has its own identity, and identities that were
  never handed out are larger than all that were.\<close>

definition wf_state :: "state \<Rightarrow> bool" where
  "wf_state s = (distinct (map nid (nodes s)) \<and> list_all (\<lambda>x. nid x < next_id s) (nodes s))"

definition parent_of :: "state \<Rightarrow> nat \<Rightarrow> nat option" where
  "parent_of s i = (case get_node s i of Some x \<Rightarrow> nparent x | None \<Rightarrow> None)"

definition empty_session :: state where
  "empty_session =
     \<lparr>nodes = [], next_id = 0, selection = [], log = [], printed = [], locs = [], jnts = [],
      og_root_pos = [], ik_jnts_check = [], basic_ctrl_grp = [], null_grp = [],
      full_ctrl_grp = [], pose_option = 1, hierarchy_option = 1,
      textfields = (\<lambda>_. []), skinned = [],
      host_orient = (\<lambda>ns ts oj sao i. (0, 0, 0)),
      host_reorient = (\<lambda>ns p x. jorient x),
      host_follow = (\<lambda>old new x. (wtrans x, wrot x)),
      host_local_rot = (\<lambda>ns x. lrot x),
      host_relative = (\<lambda>ns x v. (wtrans x, wrot x))\<rparr>"

text \<open>A small scene with the left leg of the IK skeleton, for running \<open>create_ik\<close>.\<close>

definition leg_scene :: state where
  "leg_scene = empty_session
     \<lparr>nodes := [blank_node 0 ''grp_rig_system'' Transform None,
                blank_node 1 ''ik_l_thigh'' Joint None,
                blank_node 2 ''ik_l_knee'' Joint (Some 1),
                blank_node 3 ''ik_l_foot'' Joint (Some 2),
                blank_node 4 ''ik_l_ball'' Joint (Some 3)],
      next_id := 5\<rparr>"

text \<open>The same scene with an object that has the name of the handle of the foot.\<close>

definition taken_leg_scene :: state where
  "taken_leg_scene = leg_scene
     \<lparr>nodes := nodes leg_scene @ [blank_node 5 ''hdl_l_foot'' Transform None], next_id := 6\<rparr>"

subsection \<open>Skin binding\<close>









subsection \<open>The name list and the two pose templates\<close>

definition names :: "string list" where
  "names =
    [''c_root'', ''c_hips'', ''c_spine_b'', ''c_spine_c'', ''c_chest'',
     ''c_neck'', ''c_head'', ''l_thigh'', ''l_knee'', ''l_foot'',
     ''l_ball'', ''l_toe'', ''l_clavicle'', ''l_shoulder'', ''l_elbow'',
     ''l_hand'', ''l_thumb_a'', ''l_thumb_b'', ''l_thumb_c'', ''l_pointer_a'',
     ''l_pointer_b'', ''l_pointer_c'', ''l_middle_a'', ''l_middle_b'', ''l_middle_c'',
     ''l_ring_a'', ''l_ring_b'', ''l_ring_c'', ''l_pinkie_a'', ''l_pinkie_b'',
     ''l_pinkie_c'', ''l_tip'', ''l_heel'', ''r_thigh'', ''r_knee'',
     ''r_foot'', ''r_ball'', ''r_toe'', ''r_clavicle'', ''r_shoulder'',
     ''r_elbow'', ''r_hand'', ''r_thumb_a'', ''r_thumb_b'', ''r_thumb_c'',
     ''r_pointer_a'', ''r_pointer_b'', ''r_pointer_c'', ''r_middle_a'', ''r_middle_b'',
     ''r_middle_c'', ''r_ring_a'', ''r_ring_b'', ''r_ring_c'', ''r_pinkie_a'',
     ''r_pinkie_b'', ''r_pinkie_c'', ''r_tip'', ''r_heel'']"

definition d_coords :: "vec3 list" where
  "d_coords =
    [(0, 0, 0), (0, 97.8, - 3.1), (0, 109.4, - 3.1),
     (0, 127, - 3.1), (0, 148.8, - 3.1), (0, 160.2, - 1.4),
     (0, 167.7, - 1.4), (17, 96.2, - 1.2), (17, 53, - 1.2),
     (17, 14, - 7.9), (17, 2.9, 3.7), (17, 2.8, 9.6),
     (2.6, 149.8, - 1), (17.6, 149.8, - 3.4), (47.9, 149.8, - 5.9),
     (72.1, 149.8, - 5.6), (79.6, 149.8, 1.9), (83.1, 149.8, 5.4),
     (86.6, 149.8, 8.9), (88, 149.8, - 1), (93.3, 149.8, - 1),
     (97.8, 149.8, - 1), (89.1, 149.8, - 4.7), (94.7, 149.8, - 4.7),
     (99.6, 149.8, - 4.7), (88, 149.8, - 8.4), (93.3, 149.8, - 8.4),
     (97.8, 149.8, - 8.4), (86.8, 149.8, - 11.7), (90.3, 149.8, - 11.7),
     (94.4, 149.8, - 11.7), (17, 0, 9.8), (17, 0, - 11.2),
     (- 17, 96.2, - 1.2), (- 17, 53, - 1.2), (- 17, 14, - 7.9),
     (- 17, 2.9, 3.7), (- 17, 2.8, 9.6), (- 2.6, 149.8, - 1),
     (- 17.6, 149.8, - 3.4), (- 47.9, 149.8, - 5.9), (- 72.1, 149.8, - 5.6),
     (- 79.6, 149.8, 1.9), (- 83.1, 149.8, 5.4), (- 86.6, 149.8, 8.9),
     (- 88, 149.8, - 1), (- 93.3, 149.8, - 1), (- 97.8, 149.8, - 1),
     (- 89.1, 149.8, - 4.7), (- 94.7, 149.8, - 4.7), (- 99.6, 149.8, - 4.7),
     (- 88, 149.8, - 8.4), (- 93.3, 149.8, - 8.4), (- 97.8, 149.8, - 8.4),
     (- 86.8, 149.8, - 11.7), (- 90.3, 149.8, - 11.7), (- 94.4, 149.8, - 11.7),
     (- 17, 0, 9.8), (- 17, 0, - 11.2)]"

definition coords :: "vec3 list" where
  "coords =
    [(0, 0, 0), (0, 97.8, - 3.1), (0, 107.7, 0),
     (0, 127, - 2.2), (0, 149.8, - 9.1), (0, 160.2, - 3.4),
     (0, 167.7, - 1.7), (9.2, 96.2, - 1.2), (13.3, 53.2, - 1.2),
     (17.1, 14.4, - 7.9), (17.1, 3, 6.9), (17.1, 2.7, 13),
     (5.2, 149.8, - 6.1), (17.6, 149.8, - 10), (37.1, 126.6, - 12.2),
     (56.8, 111.9, - 0.3), (57.7, 107.5, 3.8), (57.6, 105.5, 7.1),
     (57.8, 102.2, 9.6), (63, 103.7, 6.7), (64.7, 100.1, 8.2),
     (65.3, 96.8, 8.9), (64.5, 103.5, 4.4), (66.5, 99.9, 5.7),
     (67.5, 96.1, 6.5), (64.6, 103, 2.2), (66.6, 99.2, 2.9),
     (67.4, 96, 3.5), (64.1, 103, - 0.1), (66, 100, 0.2),
     (67, 97.2, 0.4), (15.9, 0.4, 13.9), (17.8, 0.4, - 13.9),
     (- 9.2, 96.2, - 1.2), (- 13.3, 53.2, - 1.2), (- 17.1, 14.4, - 7.9),
     (- 17.1, 3, 6.9), (- 17.1, 2.7, 13), (- 5.2, 149.8, - 6.1),
     (- 17.6, 149.8, - 10), (- 37.1, 126.6, - 12.2), (- 56.8, 111.9, - 0.3),
     (- 57.7, 107.5, 3.8), (- 57.6, 105.5, 7.1), (- 57.8, 102.2, 9.6),
     (- 63, 103.7, 6.7), (- 64.7, 100.1, 8.2), (- 65.3, 96.8, 8.9),
     (- 64.5, 103.5, 4.4), (- 66.5, 99.9, 5.7), (- 67.5, 96.1, 6.5),
     (- 64.6, 103, 2.2), (- 66.6, 99.2, 2.9), (- 67.4, 96, 3.5),
     (- 64.1, 103, - 0.1), (- 66, 100, 0.2), (- 67, 97.2, 0.4),
     (- 15.8, 0.4, 13.9), (- 17.8, 0.4, - 13.9)]"

subsection \<open>Locators\<close>

definition loc_creation :: "string list \<Rightarrow> vec3 list \<Rightarrow> stmt" where
  "loc_creation name_list coord_list =
     seq [for_each (zip name_list coord_list) (\<lambda>(i, c).
            bind (non_object_check (Name (''loc_'' @ i))) (\<lambda>_.
            bind (spaceLocator (''loc_'' @ i)) (\<lambda>loc.
            seq [xform_sel_translation c,
                 scale_sel (5, 5, 5),
                 select_clear,
                 recolor (PyNode loc) 17,
                 modify (\<lambda>s. s\<lparr>locs := locs s @ [loc]\<rparr>)]))),
          print ''!!! Operation: Locator Creation successful.'']"

text \<open>A loop that appends one result per element to a list.\<close>

fun collect :: "'a list \<Rightarrow> ('a \<Rightarrow> 'b comp) \<Rightarrow> ('b list) comp" where
  "collect [] f = ret []"
| "collect (x # xs) f = bind (f x) (\<lambda>y. bind (collect xs f) (\<lambda>ys. ret (y # ys)))"

text \<open>\<^verbatim>\<open>loc_mirror(side)\<close>. The buttons pass the literals \<^verbatim>\<open>"l"\<close> and \<^verbatim>\<open>"r"\<close>, for which
  \<^verbatim>\<open>side is "l"\<close> is equality.\<close>

definition mirror_t :: "vec3 \<Rightarrow> vec3" where
  "mirror_t loc_pos = (fst loc_pos * - 1, fst (snd loc_pos), snd (snd loc_pos))"

definition mirror_r :: "vec3 \<Rightarrow> vec3" where
  "mirror_r loc_rot = (fst loc_rot, fst (snd loc_rot) * - 1, snd (snd loc_rot) * - 1)"

definition loc_mirror :: "string \<Rightarrow> stmt" where
  "loc_mirror side =
     bind (collect names (\<lambda>n_obj.
             bind (object_check (Name (''loc_'' @ n_obj))) (\<lambda>_. ret (''loc_'' @ n_obj)))) (\<lambda>m_locs.
     bind (if side = ''l'' then ret (py_slice m_locs 7 33, ''r'')
           else if side = ''r'' then ret (py_slice m_locs 33 59, ''l'')
           else raise (Exception ''Wrong parameter'')) (\<lambda>(mirror_locs, other).
     for_each mirror_locs (\<lambda>mir_loc.
       bind (xform_query_translation (Name mir_loc)) (\<lambda>loc_pos.
       bind (xform_query_rotation (Name mir_loc)) (\<lambda>loc_rot.
       bind (py_index (py_split mir_loc (''loc_'' @ side)) 1) (\<lambda>other_suff.
         xform_ws (Name (''loc_'' @ other @ other_suff)) (mirror_t loc_pos) (mirror_r loc_rot)))))))"

definition handScale :: stmt where
  "handScale =
     bind (query locs) (\<lambda>ls.
       let hand_locs = py_del_slice (py_slice ls 16 57) 15 26
       in for_each hand_locs (\<lambda>hl. seq [select_replace (PyNode hl), scale_sel (2, 2, 2)]))"

definition loc_solo_hierarchy :: stmt where
  "loc_solo_hierarchy =
     bind (collect names (\<lambda>loc_name.
             bind (object_check (Name (''loc_'' @ loc_name))) (\<lambda>_. ret (Name (''loc_'' @ loc_name))))) (\<lambda>proxy_locs.
     seq [bind (query hierarchy_option) (\<lambda>sel. when_do (sel = 1)
            (let loc_grps = [py_slice proxy_locs 1 7, py_slice proxy_locs 7 12, py_slice proxy_locs 12 16,
                             py_slice proxy_locs 16 19, py_slice proxy_locs 19 22, py_slice proxy_locs 22 25,
                             py_slice proxy_locs 25 28, py_slice proxy_locs 28 31,
                             py_slice proxy_locs 33 38, py_slice proxy_locs 38 42, py_slice proxy_locs 42 45,
                             py_slice proxy_locs 45 48, py_slice proxy_locs 48 51,
                             py_slice proxy_locs 51 54, py_slice proxy_locs 54 57]
             in seq [for_each proxy_locs (\<lambda>ll. lock_attr ll [False, False, True] False True),
                     parenting loc_grps,
                     parent_to [proxy_locs ! 31, proxy_locs ! 32] (proxy_locs ! 9),
                     parent_to [proxy_locs ! 57, proxy_locs ! 58] (proxy_locs ! 35),
                     parent_to [proxy_locs ! 16, proxy_locs ! 19, proxy_locs ! 22, proxy_locs ! 25,
                                proxy_locs ! 28] (proxy_locs ! 15),
                     parent_to [proxy_locs ! 42, proxy_locs ! 45, proxy_locs ! 48, proxy_locs ! 51,
                                proxy_locs ! 54] (proxy_locs ! 41),
                     parent_to [proxy_locs ! 1, proxy_locs ! 7, proxy_locs ! 12, proxy_locs ! 33,
                                proxy_locs ! 38] (proxy_locs ! 0),
                     parent_to [proxy_locs ! 0] (Name ''grp_loc_rig''),
                     for_each proxy_locs (\<lambda>ll. lock_attr ll [False, False, True] True True),
                     select_clear])),
          bind (query hierarchy_option) (\<lambda>sel. when_do (sel = 2)
            (seq [for_each proxy_locs (\<lambda>solo_l. lock_attr solo_l [False, False, True] False True),
                  for_each proxy_locs (\<lambda>hier_loc. parent_to [hier_loc] (Name ''grp_loc_rig'')),
                  for_each proxy_locs (\<lambda>solo_l. lock_attr solo_l [False, False, True] True False),
                  select_clear]))])"

definition create_locator_hierarchy :: stmt where
  "create_locator_hierarchy =
     seq [emit (CurrentUnit ''cm''),
          non_object_check (Name ''grp_loc_rig''),
          bind (group_empty ''grp_loc_rig'') (\<lambda>_. skip),
          modify (\<lambda>s. s\<lparr>locs := []\<rparr>),
          bind (query pose_option) (\<lambda>sel.
            if sel = 1 then loc_creation names coords else loc_creation names d_coords),
          handScale,
          bind (query locs) (\<lambda>ls.
            for_each (py_slice ls 31 33 @ py_slice ls 57 59) (\<lambda>teel.
              seq [recolor (PyNode teel) 4, select_replace (PyNode teel), scale_sel (3, 3, 3)])),
          loc_solo_hierarchy,
          print ''!!! Operation: Locator Rig Creation successful.'']"

subsection \<open>Joints\<close>

text \<open>\<^verbatim>\<open>jnts.remove(name)\<close>: a PyNode equals a name when the name resolves to its object;
  \<^verbatim>\<open>list.remove\<close> raises \<^verbatim>\<open>ValueError\<close> when no element is equal.\<close>

definition jnts_remove :: "string \<Rightarrow> stmt" where
  "jnts_remove n s =
     (case ls s (Name n) of
        [j] \<Rightarrow> if j \<in> set (jnts s) then (Inr (), s\<lparr>jnts := remove1 j (jnts s)\<rparr>)
               else (Inl ValueError, s)
      | _ \<Rightarrow> (Inl ValueError, s))"

definition jnt_creation :: stmt where
  "jnt_creation =
     seq [for_each names (\<lambda>name.
            seq [object_check (Name (''loc_'' @ name)),
                 non_object_check (Name (''jnt_'' @ name)),
                 select_clear,
                 bind (joint_create (''jnt_'' @ name)) (\<lambda>jnt.
                   seq [snap_point (Name (''loc_'' @ name)) (PyNode jnt),
                        modify (\<lambda>s. s\<lparr>jnts := jnts s @ [jnt]\<rparr>)])]),
          jnts_remove ''jnt_l_tip'',
          jnts_remove ''jnt_l_heel'',
          jnts_remove ''jnt_r_tip'',
          jnts_remove ''jnt_r_heel'',
          delete_objs [Name ''jnt_r_heel'', Name ''jnt_r_tip'', Name ''jnt_l_heel'', Name ''jnt_l_tip''],
          print ''!!! Operation: Joint Creation successful.'']"

definition jnt_orientation :: "nat list \<Rightarrow> string \<Rightarrow> string \<Rightarrow> stmt" where
  "jnt_orientation j_array orientJ sao =
     for_each j_array (\<lambda>or_j.
       seq [select_replace (PyNode or_j),
            bind listRelatives_joints_sel (\<lambda>rel.
              if rel \<noteq> [] then joint_orient_sel orientJ sao
              else joint_orient_sel ''none'' [])])"

text \<open>Reading \<^verbatim>\<open>jnts[k]\<close> raises \<^verbatim>\<open>IndexError\<close> when the list is too short.\<close>

definition with_jnts :: "nat list \<Rightarrow> (nat list \<Rightarrow> stmt) \<Rightarrow> stmt" where
  "with_jnts ks f s =
     (if list_all (\<lambda>k. k < length (jnts s)) ks then f (map (\<lambda>k. jnts s ! k) ks) s
      else (Inl IndexError, s))"

definition orient_jnts :: "nat list \<Rightarrow> string \<Rightarrow> string \<Rightarrow> stmt" where
  "orient_jnts ks oj sao = with_jnts ks (\<lambda>js. joint_orient (map PyNode js) oj sao)"

definition parent_jnts :: "nat list \<Rightarrow> nat \<Rightarrow> stmt" where
  "parent_jnts ks p = with_jnts (ks @ [p]) (\<lambda>js. parent_to (map PyNode (butlast js)) (PyNode (last js)))"

text \<open>\<^verbatim>\<open>create_joint_hierarchy\<close> in the three parts its comments mark: the creation,
  chaining and orientation of the limbs, the fix of the right knee, and the assembly of
  the skeleton.\<close>

definition cjh_limbs :: "stmt list" where
  "cjh_limbs =
     [emit (CurrentUnit ''cm''),
      modify (\<lambda>s. s\<lparr>jnts := []\<rparr>),
      jnt_creation,
      bind (query jnts) (\<lambda>js.
        let jnt_grps = [py_slice js 1 7, py_slice js 7 12, py_slice js 12 16, py_slice js 16 19,
                        py_slice js 19 22, py_slice js 22 25, py_slice js 25 28, py_slice js 28 31,
                        py_slice js 31 36, py_slice js 36 40, py_slice js 40 43, py_slice js 43 46,
                        py_slice js 46 49, py_slice js 49 52, py_slice js 52 55]
        in seq [parenting (map (map PyNode) jnt_grps),
                jnt_orientation js ''xyz'' ''yup'',
                jnt_orientation (jnt_grps ! 2) ''xyz'' ''ydown'',
                jnt_orientation (jnt_grps ! 3) ''xyz'' ''ydown'',
                jnt_orientation (jnt_grps ! 4) ''xyz'' ''ydown'',
                jnt_orientation (jnt_grps ! 5) ''xyz'' ''ydown'',
                jnt_orientation (jnt_grps ! 6) ''xyz'' ''ydown'',
                jnt_orientation (jnt_grps ! 7) ''xyz'' ''ydown'']),
      orient_jnts [7, 8] ''xyz'' ''zup'',
      orient_jnts [31] ''xyz'' ''zdown'',
      orient_jnts [33] ''xyz children'' ''ydown'',
      orient_jnts [35] ''none'' []]"

definition cjh_knee_fix :: "stmt list" where
  "cjh_knee_fix =
     [with_jnts [33] (\<lambda>js. parent_world (map PyNode js)),
      with_jnts [32] (\<lambda>js.
        bind (joint_query_orientation (PyNode (js ! 0))) (\<lambda>r_leg_or.
          joint_set_orientation (PyNode (js ! 0)) (0, fst (snd r_leg_or), snd (snd r_leg_or)))),
      parent_jnts [33] 32]"

definition cjh_assembly :: "stmt list" where
  "cjh_assembly =
     [orient_jnts [4] ''xyz children'' ''ydown'',
      orient_jnts [6] ''none'' [],
      orient_jnts [1] ''xyz'' ''ydown'',
      parent_jnts [7, 31] 1,
      parent_jnts [12, 36] 4,
      parent_jnts [16, 19, 22, 25, 28] 15,
      parent_jnts [40, 43, 46, 49, 52] 39,
      parent_jnts [1] 0,
      non_object_check (Name ''grp_bind_rig''),
      bind (group_empty ''grp_bind_rig'') (\<lambda>_. skip),
      with_jnts [0] (\<lambda>js. parent_to (map PyNode js) (Name ''grp_bind_rig'')),
      lock_attr (Name ''grp_bind_rig'') [True, True, True] True True,
      hide [Name ''grp_loc_rig''],
      select_clear,
      emit (ButtonEnable ''b_l_mirror'' False),
      emit (ButtonEnable ''b_r_mirror'' False),
      with_jnts [0] (\<lambda>js. bind (joint_query_position (PyNode (js ! 0))) (\<lambda>root_jnt_pos.
      with_jnts [1] (\<lambda>js. bind (joint_query_position (PyNode (js ! 0))) (\<lambda>hip_jnt_pos.
        seq [modify (\<lambda>s. s\<lparr>og_root_pos := og_root_pos s @ [root_jnt_pos]\<rparr>),
             modify (\<lambda>s. s\<lparr>og_root_pos := og_root_pos s @ [hip_jnt_pos]\<rparr>)])))),
      print ''!!! Operation: Joint Hierarchy Creation successful.'']"

definition create_joint_hierarchy :: stmt where
  "create_joint_hierarchy = seq (cjh_limbs @ cjh_knee_fix @ cjh_assembly)"

subsection \<open>Reset to the skeleton\<close>

definition reset_jnts :: stmt where
  "reset_jnts =
     seq [modify (\<lambda>s. s\<lparr>basic_ctrl_grp := [], null_grp := [], full_ctrl_grp := []\<rparr>),
          showHidden [Name ''grp_bind_rig''],
          bind (query (\<lambda>s. objExists s (Name ''grp_control_rig''))) (\<lambda>b.
            when_do b (delete_objs [Name ''grp_control_rig''])),
          (let jnt_names = py_slice names 0 31 @ py_slice names 33 57
           in for_each jnt_names (\<lambda>zero_jnt. xform_os_rotation_zero (Name (''jnt_'' @ zero_jnt)))),
          bind (query og_root_pos) (\<lambda>og. bind (py_index og 0) (\<lambda>p0.
            xform_translation_abs (Name (''jnt_'' @ names ! 0)) p0)),
          bind (query og_root_pos) (\<lambda>og. bind (py_index og 1) (\<lambda>p1.
            xform_translation_abs (Name (''jnt_'' @ names ! 1)) p1)),
          print ''!!! Operation: Reset to Skeleton successful.'']"

subsection \<open>Specifications of computations\<close>

text \<open>\<open>spec P f Q E\<close>: started in a state with \<open>P\<close>, the computation \<open>f\<close> either returns a
  value and a state with \<open>Q\<close>, or raises an exception in a state with \<open>E\<close>.\<close>

definition spec :: "(state \<Rightarrow> bool) \<Rightarrow> 'a comp \<Rightarrow> ('a \<Rightarrow> state \<Rightarrow> bool) \<Rightarrow> (exn \<Rightarrow> state \<Rightarrow> bool) \<Rightarrow> bool" where
  "spec P f Q E = (\<forall>s. P s \<longrightarrow> (case f s of (Inr x, s') \<Rightarrow> Q x s' | (Inl e, s') \<Rightarrow> E e s'))"

subsection \<open>What \<open>reset_jnts\<close> leaves behind\<close>

text \<open>\<open>reset_post\<close>: the control rig group is gone, every joint of the skeleton has a zero
  rotation in its own space, the controller lists are empty. The other two predicates are
  the stages before it.\<close>

definition reset_post :: "state \<Rightarrow> bool" where
  "reset_post s = (named s ''grp_control_rig'' = []
     \<and> list_all (\<lambda>n. list_ex (\<lambda>x. nname x = ''jnt_'' @ n \<and> lrot x = (0, 0, 0)) (nodes s))
          (py_slice names 0 31 @ py_slice names 33 57)
     \<and> basic_ctrl_grp s = [] \<and> null_grp s = [] \<and> full_ctrl_grp s = [] \<and> og_root_pos s = [])"

definition reset_cleared :: "state \<Rightarrow> bool" where
  "reset_cleared s = (og_root_pos s = [] \<and> basic_ctrl_grp s = [] \<and> null_grp s = [] \<and> full_ctrl_grp s = [])"

definition reset_zeroed :: "string list \<Rightarrow> state \<Rightarrow> bool" where
  "reset_zeroed ys s = (reset_cleared s \<and> named s ''grp_control_rig'' = []
     \<and> list_all (\<lambda>n. list_ex (\<lambda>x. nname x = ''jnt_'' @ n \<and> lrot x = (0, 0, 0)) (nodes s)) ys)"

definition name_count :: "state \<Rightarrow> string \<Rightarrow> nat" where
  "name_count s n = length (named s n)"

text \<open>The objects that are not \<^verbatim>\<open>grp_control_rig\<close> nor below it. \<open>reset_ready\<close>: one object
  is named \<^verbatim>\<open>grp_bind_rig\<close>, at most one \<^verbatim>\<open>grp_control_rig\<close>, and each of the 55 joint
  names is the name of exactly one object outside the control rig.\<close>

definition outside_control_rig :: "state \<Rightarrow> node list" where
  "outside_control_rig s =
     filter (\<lambda>x. nid x \<notin> set (descendants s (ls s (Name ''grp_control_rig'')))) (nodes s)"

definition reset_ready :: "state \<Rightarrow> bool" where
  "reset_ready s =
     (name_count s ''grp_bind_rig'' = 1
      \<and> name_count s ''grp_control_rig'' \<le> 1
      \<and> (let out = map nname (outside_control_rig s)
         in list_all (\<lambda>n. length (filter (\<lambda>m. m = ''jnt_'' @ n) out) = 1)
              (py_slice names 0 31 @ py_slice names 33 57)))"

text \<open>A scene after the control rig was built: the hidden \<^verbatim>\<open>grp_bind_rig\<close> with the 55
  joints, all rotated, and \<^verbatim>\<open>grp_control_rig\<close> with its two groups and an IK joint. And a
  scene that has \<^verbatim>\<open>grp_bind_rig\<close> but no joint.\<close>

definition rigged_scene :: state where
  "rigged_scene = empty_session
     \<lparr>nodes := [(blank_node 0 ''grp_bind_rig'' Transform None)\<lparr>nhidden := True\<rparr>,
                blank_node 1 ''grp_control_rig'' Transform None,
                blank_node 2 ''grp_ik_rig'' Transform (Some 1),
                blank_node 3 ''grp_rig_system'' Transform (Some 1),
                blank_node 4 ''ik_c_root'' Joint (Some 2)]
               @ map (\<lambda>(i, n). (blank_node i (''jnt_'' @ n) Joint (Some 0))\<lparr>lrot := (10, 20, 30)\<rparr>)
                   (zip [5 ..< 60] (py_slice names 0 31 @ py_slice names 33 57)),
      next_id := 60\<rparr>"

definition bind_rig_only :: state where
  "bind_rig_only = empty_session
     \<lparr>nodes := [(blank_node 0 ''grp_bind_rig'' Transform None)\<lparr>nhidden := True\<rparr>], next_id := 1\<rparr>"

subsection \<open>The IK skeleton\<close>

definition create_control_rig :: stmt where
  "create_control_rig =
     seq [for_each (py_slice names 0 31 @ py_slice names 33 57) (\<lambda>check_jnt.
            object_check (Name (''jnt_'' @ check_jnt))),
          for_each names (\<lambda>ik_jnt_check. non_object_check (Name (''ik_'' @ ik_jnt_check))),
          bind (duplicate (Name (''jnt_'' @ names ! 0))) (\<lambda>_. skip),
          select_hierarchy (Name (''jnt_'' @ names ! 0 @ ''1'')),
          bind (query selection) (\<lambda>ik_jnts.
            for_each ik_jnts (\<lambda>ik_j.
              bind (node_name (PyNode ik_j)) (\<lambda>ik_j_name.
              bind (py_index (py_split ik_j_name ''jnt_'') 1) (\<lambda>ik_suf.
              bind (rename (PyNode ik_j) (''ik_'' @ ik_suf)) (\<lambda>ik_joint.
                modify (\<lambda>s. s\<lparr>ik_jnts_check := ik_jnts_check s @ [ik_joint]\<rparr>)))))),
          bind (rename (Name ''ik_c_root1'') ''ik_c_root'') (\<lambda>_. skip),
          non_object_check (Name ''grp_control_rig''),
          bind (group_empty ''grp_control_rig'') (\<lambda>_. skip),
          non_object_check (Name ''grp_ik_rig''),
          bind (group_empty_under ''grp_ik_rig'' (Name ''grp_control_rig'')) (\<lambda>_. skip),
          non_object_check (Name ''grp_rig_system''),
          bind (group_empty_under ''grp_rig_system'' (Name ''grp_control_rig'')) (\<lambda>_. skip),
          bind (query ik_jnts_check) (\<lambda>c.
            bind (py_index c 0) (\<lambda>a. bind (py_index c 45) (\<lambda>b. bind (py_index c 50) (\<lambda>d.
              parent_to [PyNode a, PyNode b, PyNode d] (Name ''grp_ik_rig''))))),
          select_clear,
          print ''!!! Operation: IK Rig Creation successful.'']"

definition connect_rig :: stmt where
  "connect_rig =
     (let con = py_slice names 0 7 @ py_slice names 8 31 @ py_slice names 34 57;
          jnts_con = map (\<lambda>jnt_con_j. ''jnt_'' @ jnt_con_j) con;
          ik_con = map (\<lambda>jnt_con_j. ''ik_'' @ jnt_con_j) con
      in seq [for_each (zip ik_con jnts_con) (\<lambda>(ikc, jc).
                seq [object_check (Name ikc),
                     object_check (Name jc),
                     connectAttr (ikc @ ''.translate'') (jc @ ''.translate''),
                     connectAttr (ikc @ ''.rotate'') (jc @ ''.rotate'')]),
              connectAttr ''ik_c_root.translate'' ''jnt_c_root.translate'',
              connectAttr ''ik_c_root.rotate'' ''jnt_c_root.rotate'',
              constraint ''parent'' [Name (''ik_'' @ names ! 7), Name (''jnt_'' @ names ! 7)],
              constraint ''parent'' [Name (''ik_'' @ names ! 33), Name (''jnt_'' @ names ! 33)],
              print ''!!! Operation: IK to Bind Rig Connection successful.''])"

subsection \<open>Pole vectors\<close>

definition setupPV :: "nat \<Rightarrow> string \<Rightarrow> vec3 \<Rightarrow> stmt" where
  "setupPV prnt hdl trans_v =
     bind (node_name (PyNode prnt)) (\<lambda>prnt_name.
     bind (py_index (py_split prnt_name ''ik_'') 1) (\<lambda>prnt_s.
     bind (group_empty_under (''grp_null_PV_'' @ prnt_s) (PyNode prnt)) (\<lambda>grp.
     seq [snap_parent (PyNode prnt) (PyNode grp),
          bind (query selection) (\<lambda>sel. parent_world (map PyNode sel)),
          bind (spaceLocator (''loc_PV_'' @ prnt_s)) (\<lambda>l. parent_relative (PyNode l) (PyNode grp)),
          constraint ''poleVector'' [Name (''loc_PV_'' @ prnt_s), Name hdl],
          bind (spaceLocator ''locator1'') (\<lambda>loc_pj.
          bind (spaceLocator ''locator1'') (\<lambda>loc_pi.
          seq [parent_relative (PyNode loc_pj) (Name (''jnt_'' @ prnt_s)),
               parent_relative (PyNode loc_pi) (PyNode prnt),
               xform_relative [PyNode loc_pj, PyNode loc_pi, PyNode grp] trans_v,
               parent_world [PyNode loc_pj, PyNode loc_pi],
               parent_to [PyNode grp] (PyNode loc_pi),
               snap_parent (PyNode loc_pj) (PyNode loc_pi),
               parent_to [PyNode grp] (Name ''grp_rig_system''),
               delete_objs [PyNode loc_pj, PyNode loc_pi]]))])))"

subsection \<open>The reverse foot\<close>

definition reverseFoot :: stmt where
  "reverseFoot =
     (let feet = [''loc_'' @ names ! 32, ''loc_'' @ names ! 31, ''loc_'' @ names ! 10,
                  ''loc_'' @ names ! 58, ''loc_'' @ names ! 57, ''loc_'' @ names ! 36]
      in bind (collect feet (\<lambda>fl.
                 bind (non_object_check (Name (''ik_'' @ fl))) (\<lambda>_.
                 bind (spaceLocator (''ik_'' @ fl)) (\<lambda>f_loc.
                 bind (snap_point (Name fl) (PyNode f_loc)) (\<lambda>_. ret f_loc))))) (\<lambda>ik_feet.
         (let ik_feet_grp = [py_slice ik_feet 0 3, py_slice ik_feet 3 7]
          in seq [parenting (map (map PyNode) ik_feet_grp),
                  parent_to [Name (''hdl_'' @ names ! 35), Name (''hdl_'' @ names ! 36)]
                            (Name (''ik_loc_'' @ names ! 36)),
                  parent_to [Name (''hdl_'' @ names ! 9), Name (''hdl_'' @ names ! 10)]
                            (Name (''ik_loc_'' @ names ! 10)),
                  parent_to [Name (''hdl_'' @ names ! 37)] (Name (''ik_loc_'' @ names ! 58)),
                  parent_to [Name (''hdl_'' @ names ! 11)] (Name (''ik_loc_'' @ names ! 32)),
                  non_object_check (Name (''grp_null_'' @ names ! 32)),
                  bind (group_empty (''grp_null_'' @ names ! 32)) (\<lambda>_. skip),
                  snap_parent (Name (''ik_loc_'' @ names ! 32)) (Name (''grp_null_'' @ names ! 32)),
                  non_object_check (Name (''grp_null_'' @ names ! 58)),
                  bind (group_empty (''grp_null_'' @ names ! 58)) (\<lambda>_. skip),
                  snap_parent (Name (''ik_loc_'' @ names ! 58)) (Name (''grp_null_'' @ names ! 58)),
                  parent_to [Name (''ik_loc_'' @ names ! 32)] (Name (''grp_null_'' @ names ! 32)),
                  parent_to [Name (''ik_loc_'' @ names ! 58)] (Name (''grp_null_'' @ names ! 58)),
                  parent_to [Name (''grp_null_'' @ names ! 32), Name (''grp_null_'' @ names ! 58)]
                            (Name ''grp_rig_system''),
                  print ''!!! Operation: Reverse Foot Setup successful.''])))"

subsection \<open>Controller curves\<close>

definition freezeDelHistory :: "ref \<Rightarrow> stmt" where
  "freezeDelHistory fdh_obj =
     seq [object_check fdh_obj,
          shape_cmd ''makeIdentity'' fdh_obj,
          shape_cmd ''deleteHistory'' fdh_obj,
          select_clear]"

definition append_basic :: "string \<Rightarrow> stmt" where
  "append_basic n = modify (\<lambda>s. s\<lparr>basic_ctrl_grp := basic_ctrl_grp s @ [n]\<rparr>)"

definition crv_basic :: "string \<Rightarrow> rat \<Rightarrow> nat \<Rightarrow> stmt" where
  "crv_basic basic_name b_scale b_col =
     seq [non_object_check (Name basic_name),
          curve_create basic_name,
          shape_cmd ''scale'' (Name basic_name),
          shape_cmd ''rotate'' (Name basic_name),
          recolor (Name basic_name) b_col,
          freezeDelHistory (Name basic_name),
          append_basic basic_name]"

definition hands_core :: "string \<Rightarrow> stmt" where
  "hands_core hands_core_name =
     seq [non_object_check (Name hands_core_name), curve_create hands_core_name]"

definition crv_hands :: "string \<Rightarrow> nat \<Rightarrow> stmt" where
  "crv_hands hands_name h_col =
     seq [hands_core hands_name,
          shape_cmd ''rotate'' (Name hands_name),
          recolor (Name hands_name) h_col,
          append_basic hands_name]"

definition crv_root :: "string \<Rightarrow> stmt" where
  "crv_root root_name =
     seq [hands_core root_name,
          shape_cmd ''scale'' (Name root_name),
          shape_cmd ''rotate'' (Name root_name),
          recolor (Name root_name) 4,
          append_basic root_name]"

definition crv_centerOfMass :: "string \<Rightarrow> stmt" where
  "crv_centerOfMass com_name =
     seq [hands_core com_name,
          shape_cmd ''scale'' (Name com_name),
          shape_cmd ''rotate'' (Name com_name),
          recolor (Name com_name) 4,
          append_basic com_name]"

definition feet_core :: "string \<Rightarrow> stmt" where
  "feet_core feet_core_name =
     seq [non_object_check (Name feet_core_name), curve_create feet_core_name]"

definition crv_feet :: "string \<Rightarrow> nat \<Rightarrow> stmt" where
  "crv_feet feet_name f_col = seq [feet_core feet_name, recolor (Name feet_name) f_col]"

definition crv_shoulder :: "string \<Rightarrow> nat \<Rightarrow> stmt" where
  "crv_shoulder shoulder_name s_col =
     seq [feet_core shoulder_name,
          shape_cmd ''rotate'' (Name shoulder_name),
          shape_cmd ''scale'' (Name shoulder_name),
          recolor (Name shoulder_name) s_col]"

definition crv_kneel :: "string \<Rightarrow> nat \<Rightarrow> stmt" where
  "crv_kneel kneel_name ke_col =
     seq [non_object_check (Name kneel_name),
          curve_create kneel_name,
          recolor (Name kneel_name) ke_col]"

definition chest_core :: "string \<Rightarrow> stmt" where
  "chest_core chest_core_name =
     seq [non_object_check (Name chest_core_name),
          curve_create chest_core_name,
          shape_cmd ''rotate'' (Name chest_core_name),
          shape_cmd ''scale'' (Name chest_core_name),
          shape_cmd ''makeIdentity'' (Name chest_core_name),
          shape_cmd ''select cv[1] cv[5]'' (Name chest_core_name),
          shape_cmd ''scale cv'' (Name chest_core_name),
          shape_cmd ''select cv[6] cv[0] cv[2] cv[4]'' (Name chest_core_name),
          shape_cmd ''move cv'' (Name chest_core_name),
          shape_cmd ''select cv[3] cv[7]'' (Name chest_core_name),
          shape_cmd ''scale cv'' (Name chest_core_name),
          shape_cmd ''move cv'' (Name chest_core_name),
          shape_cmd ''rotate'' (Name chest_core_name),
          recolor (Name chest_core_name) 17,
          select_clear]"

definition crv_chest :: "string \<Rightarrow> stmt" where
  "crv_chest chest_name =
     seq [chest_core chest_name,
          shape_cmd ''scale'' (Name chest_name),
          shape_cmd ''rotate'' (Name chest_name),
          shape_cmd ''move'' (Name chest_name),
          shape_cmd ''move pivots'' (Name chest_name),
          append_basic chest_name]"

definition crv_head :: "string \<Rightarrow> stmt" where
  "crv_head head_name =
     seq [chest_core head_name,
          shape_cmd ''scale'' (Name head_name),
          shape_cmd ''move'' (Name head_name),
          shape_cmd ''move pivots'' (Name head_name),
          append_basic head_name]"

definition crv_spineB :: "string \<Rightarrow> stmt" where
  "crv_spineB spineB_name =
     seq [non_object_check (Name spineB_name),
          curve_create spineB_name,
          shape_cmd ''scale'' (Name spineB_name),
          shape_cmd ''rotate'' (Name spineB_name),
          recolor (Name spineB_name) 17,
          append_basic spineB_name]"

definition crv_spineC :: "string \<Rightarrow> stmt" where
  "crv_spineC spineC_name =
     seq [non_object_check (Name spineC_name),
          curve_create spineC_name,
          shape_cmd ''scale'' (Name spineC_name),
          shape_cmd ''rotate'' (Name spineC_name),
          recolor (Name spineC_name) 17,
          append_basic spineC_name]"

definition endswith :: "string \<Rightarrow> string \<Rightarrow> bool" where
  "endswith s suf = (length suf \<le> length s \<and> drop (length s - length suf) s = suf)"

definition l_fingers :: "string list" where
  "l_fingers = py_slice names 16 31"

definition r_fingers :: "string list" where
  "r_fingers = py_slice names 42 57"

definition crv_fingers :: stmt where
  "crv_fingers =
     seq [for_each r_fingers (\<lambda>rf.
            seq [non_object_check (Name (''ctrl_'' @ rf)),
                 if endswith rf ''_a'' then crv_basic (''ctrl_'' @ rf) 2.2 6
                 else crv_basic (''ctrl_'' @ rf) 1.6 6]),
          for_each l_fingers (\<lambda>lf.
            seq [non_object_check (Name (''ctrl_'' @ lf)),
                 if endswith lf ''_a'' then crv_basic (''ctrl_'' @ lf) 2.2 13
                 else crv_basic (''ctrl_'' @ lf) 1.6 13]),
          bind (resolve_all [Name (''ctrl_'' @ names ! 16), Name (''ctrl_'' @ names ! 17),
                             Name (''ctrl_'' @ names ! 42), Name (''ctrl_'' @ names ! 43)])
            (\<lambda>_. emit (Shape ''xform scale'' [''ctrl_'' @ names ! 16, ''ctrl_'' @ names ! 17,
                                            ''ctrl_'' @ names ! 42, ''ctrl_'' @ names ! 43]))]"

subsection \<open>Controller groups and positions\<close>

definition ctrl_grp_prep :: "string \<Rightarrow> string \<Rightarrow> string comp" where
  "ctrl_grp_prep pref g_ctrl =
     bind (object_check (Name g_ctrl)) (\<lambda>_.
     bind select_clear (\<lambda>_.
     bind (group_empty (''grp_null_'' @ g_ctrl)) (\<lambda>ctrls_grp.
     bind (py_index (py_split g_ctrl ''ctrl_'') 1) (\<lambda>ctrl_suf.
     (let ctrl_jnt = pref @ ctrl_suf
      in bind (parent_to [Name g_ctrl] (PyNode ctrls_grp)) (\<lambda>_.
         bind (snap_parent (Name ctrl_jnt) (PyNode ctrls_grp)) (\<lambda>_.
         bind (parent_to [PyNode ctrls_grp] (Name ''grp_controls'')) (\<lambda>_.
         bind (modify (\<lambda>s. s\<lparr>null_grp := null_grp s @ [ctrls_grp]\<rparr>)) (\<lambda>_.
         ret ctrl_jnt)))))))))"

definition basic_ctrl_position :: stmt where
  "basic_ctrl_position =
     bind (query basic_ctrl_grp) (\<lambda>cs.
       for_each cs (\<lambda>ctrl.
         seq [bind (ctrl_grp_prep ''ik_'' ctrl) (\<lambda>_. skip),
              freezeDelHistory (Name ctrl)]))"

definition feet_ctrl_position :: "string \<Rightarrow> rat \<Rightarrow> rat \<Rightarrow> rat \<Rightarrow> stmt" where
  "feet_ctrl_position f_ctrl gx_rot gz_rot f_rot_corr =
     bind (object_check (Name f_ctrl)) (\<lambda>_.
     bind (ctrl_grp_prep ''ik_'' f_ctrl) (\<lambda>c_jnt.
     seq [shape_cmd ''rotate'' (Name (''grp_null_'' @ f_ctrl)),
          bind (joint_query_position (Name c_jnt)) (\<lambda>jnt_pvt.
            seq [xform_ws (Name f_ctrl) (fst jnt_pvt, 0, 0) (0, 0, f_rot_corr),
                 shape_cmd ''xform pivots'' (Name f_ctrl)]),
          parent_to [Name f_ctrl] (Name (''grp_null_'' @ f_ctrl)),
          freezeDelHistory (Name f_ctrl)]))"

definition shoulder_ctrl_position :: "string \<Rightarrow> rat \<Rightarrow> rat \<Rightarrow> stmt" where
  "shoulder_ctrl_position s_ctrl s_rot_corr rrev =
     seq [object_check (Name s_ctrl),
          bind (ctrl_grp_prep ''ik_'' s_ctrl) (\<lambda>_. skip),
          shape_cmd ''rotate'' (Name s_ctrl),
          shape_cmd ''select Shape'' (Name s_ctrl),
          shape_cmd ''move shape'' (Name s_ctrl),
          shape_cmd ''rotate shape'' (Name s_ctrl),
          shape_cmd ''move pivots'' (Name s_ctrl),
          freezeDelHistory (Name s_ctrl)]"

definition kneel_ctrl_position :: "string \<Rightarrow> rat \<Rightarrow> rat \<Rightarrow> stmt" where
  "kneel_ctrl_position ke_ctrl rotX_corr rotZ_corr =
     seq [object_check (Name ke_ctrl),
          bind (ctrl_grp_prep ''loc_'' ke_ctrl) (\<lambda>_. skip),
          shape_cmd ''rotate'' (Name ke_ctrl),
          freezeDelHistory (Name ke_ctrl)]"

text \<open>Reading \<^verbatim>\<open>null_grp[k]\<close> and \<^verbatim>\<open>full_ctrl_grp[k]\<close>; the latter is the list of children
  of a controller group.\<close>

definition ng :: "nat \<Rightarrow> (ref list) comp" where
  "ng k = bind (query null_grp) (\<lambda>g. bind (py_index g k) (\<lambda>i. ret [PyNode i]))"

definition ng_slice :: "nat \<Rightarrow> nat \<Rightarrow> (ref list) comp" where
  "ng_slice a b = bind (query null_grp) (\<lambda>g. ret (map PyNode (py_slice g a b)))"

definition fc :: "nat \<Rightarrow> (ref list) comp" where
  "fc k = bind (query full_ctrl_grp) (\<lambda>g. bind (py_index g k) (\<lambda>c. ret (map PyNode c)))"

definition named_ref :: "string \<Rightarrow> (ref list) comp" where
  "named_ref n = ret [Name n]"

text \<open>A host command whose arguments are objects and lists of objects: the arguments are
  evaluated from left to right and flattened.\<close>

definition flat_args :: "((ref list) comp) list \<Rightarrow> (ref list) comp" where
  "flat_args args = bind (collect args (\<lambda>a. a)) (\<lambda>rs. ret (concat rs))"

definition parent_flat :: "((ref list) comp) list \<Rightarrow> stmt" where
  "parent_flat args =
     bind (flat_args args) (\<lambda>rs.
       if rs = [] then raise RuntimeError else parent_to (butlast rs) (last rs))"

definition constraint_flat :: "string \<Rightarrow> ((ref list) comp) list \<Rightarrow> stmt" where
  "constraint_flat k args = bind (flat_args args) (\<lambda>rs. constraint k rs)"

definition nurbs_controller :: stmt where
  "nurbs_controller =
     seq [bind (group_empty ''grp_controls'') (\<lambda>g. parent_to [PyNode g] (Name ''grp_control_rig'')),
          crv_root (''ctrl_'' @ names ! 0),
          crv_centerOfMass (''ctrl_'' @ names ! 1),
          crv_spineB (''ctrl_'' @ names ! 2),
          crv_spineC (''ctrl_'' @ names ! 3),
          crv_chest (''ctrl_'' @ names ! 4),
          crv_basic (''ctrl_'' @ names ! 5) 10 17,
          crv_head (''ctrl_'' @ names ! 6),
          crv_hands (''ctrl_'' @ names ! 15) 13,
          crv_hands (''ctrl_'' @ names ! 41) 6,
          crv_fingers,
          crv_kneel (''ctrl_PV_'' @ names ! 8) 13,
          crv_kneel (''ctrl_PV_'' @ names ! 34) 6,
          crv_kneel (''ctrl_PV_'' @ names ! 14) 13,
          crv_kneel (''ctrl_PV_'' @ names ! 40) 6,
          crv_shoulder (''ctrl_'' @ names ! 12) 13,
          crv_shoulder (''ctrl_'' @ names ! 38) 6,
          crv_feet (''ctrl_'' @ names ! 9) 13,
          crv_feet (''ctrl_'' @ names ! 35) 6,
          print ''!!! Operation: Controller Creation successful.'',
          basic_ctrl_position,
          shoulder_ctrl_position (''ctrl_'' @ names ! 12) 90 1,
          shoulder_ctrl_position (''ctrl_'' @ names ! 38) (- 90) (- 1),
          feet_ctrl_position (''ctrl_'' @ names ! 9) 90 (- 90) 180,
          feet_ctrl_position (''ctrl_'' @ names ! 35) (- 90) (- 90) 0,
          kneel_ctrl_position (''ctrl_PV_'' @ names ! 14) 90 0,
          kneel_ctrl_position (''ctrl_PV_'' @ names ! 40) 90 0,
          kneel_ctrl_position (''ctrl_PV_'' @ names ! 8) 0 0,
          kneel_ctrl_position (''ctrl_PV_'' @ names ! 34) 0 180,
          bind (ng 1) (\<lambda>g. for_each g (shape_cmd ''rotate'')),
          bind (ng 2) (\<lambda>g. for_each g (shape_cmd ''rotate'')),
          bind (ng 3) (\<lambda>g. for_each g (shape_cmd ''rotate'')),
          bind (ng 4) (\<lambda>g. for_each g (shape_cmd ''rotate'')),
          bind (ng 6) (\<lambda>g. for_each g (shape_cmd ''rotate'')),
          shape_cmd ''rotate'' (Name (''ctrl_'' @ names ! 5)),
          freezeDelHistory (Name (''ctrl_'' @ names ! 5)),
          print ''!!! Operation: Controller Positioning successful.'']"

definition ctrl_functionality :: stmt where
  "ctrl_functionality =
     seq [constraint_flat ''point'' [fc 46, named_ref (''grp_null_PV_'' @ names ! 34)],
          constraint_flat ''point'' [fc 45, named_ref (''grp_null_PV_'' @ names ! 8)],
          constraint_flat ''point'' [fc 44, named_ref (''grp_null_PV_'' @ names ! 40)],
          constraint_flat ''point'' [fc 43, named_ref (''grp_null_PV_'' @ names ! 14)],
          hide [Name (''grp_null_PV_'' @ names ! 34), Name (''grp_null_PV_'' @ names ! 8),
                Name (''grp_null_PV_'' @ names ! 40), Name (''grp_null_PV_'' @ names ! 14)],
          constraint_flat ''point'' [fc 7, named_ref (''hdl_'' @ names ! 15)],
          constraint_flat ''point'' [fc 8, named_ref (''hdl_'' @ names ! 41)],
          constraint_flat ''orient'' [fc 7, named_ref (''ik_'' @ names ! 15)],
          constraint_flat ''orient'' [fc 8, named_ref (''ik_'' @ names ! 41)],
          constraint_flat ''parent'' [fc 0, named_ref (''ik_'' @ names ! 0)],
          constraint_flat ''parent'' [fc 1, named_ref (''ik_'' @ names ! 7)],
          constraint_flat ''parent'' [fc 1, named_ref (''ik_'' @ names ! 33)],
          constraint_flat ''parent'' [fc 41, named_ref (''grp_null_'' @ names ! 32)],
          constraint_flat ''parent'' [fc 42, named_ref (''grp_null_'' @ names ! 58)],
          constraint_flat ''parent'' [fc 1, named_ref (''ikh_'' @ names ! 1)],
          constraint ''orient'' [Name (''ikh_'' @ names ! 1), Name (''ik_'' @ names ! 1)],
          constraint_flat ''point'' [fc 2, named_ref (''ikh_'' @ names ! 2)],
          constraint_flat ''point'' [fc 3, named_ref (''ikh_'' @ names ! 3)],
          constraint_flat ''parent'' [fc 4, named_ref (''ikh_'' @ names ! 4)],
          constraint_flat ''orient'' [fc 4, named_ref (''ik_'' @ names ! 4)],
          constraint_flat ''orient'' [fc 5, named_ref (''ik_'' @ names ! 5)],
          constraint_flat ''orient'' [fc 6, named_ref (''ik_'' @ names ! 6)],
          constraint_flat ''orient'' [fc 39, named_ref (''ik_'' @ names ! 12)],
          constraint_flat ''orient'' [fc 40, named_ref (''ik_'' @ names ! 38)],
          (let finger_names = l_fingers @ r_fingers
           in for_each finger_names (\<lambda>fn.
                constraint ''orient'' [Name (''ctrl_'' @ fn), Name (''ik_'' @ fn)])),
          print ''!!! Operation: Controller Functionality successful.'']"

function finger_triplets :: "'a list \<Rightarrow> 'a list list" where
  "finger_triplets finger_array =
     (if finger_array = [] then []
      else take 3 finger_array # finger_triplets (drop 3 finger_array))"
  by pat_completeness auto
termination
  by (relation "measure length") auto

definition ctrl_hierarchy :: stmt where
  "ctrl_hierarchy =
     seq [parent_flat [ng 2, fc 1],
          parent_flat [ng_slice 7 9, ng_slice 41 43, ng 1, ng 4, ng_slice 45 47, ng_slice 43 45, fc 0],
          parent_flat [ng_slice 39 41, ng 3, ng 5, fc 4],
          parent_flat [ng 6, fc 5],
          parent_flat [ng 24, ng 27, ng 30, ng 33, ng 36, fc 7],
          parent_flat [ng 9, ng 12, ng 15, ng 18, ng 21, fc 8],
          bind (query null_grp) (\<lambda>n. bind (query full_ctrl_grp) (\<lambda>f.
            (let all_finger_grps = py_slice n 9 24 @ py_slice n 24 39;
                 all_finger_ctrls = py_slice f 9 24 @ py_slice f 24 39;
                 finger_grps = finger_triplets all_finger_grps;
                 finger_ctrls = finger_triplets all_finger_ctrls
             in for_each (zip finger_grps finger_ctrls) (\<lambda>(f_grp, f_ctrl).
                  for_each [1 ..< length f_grp] (\<lambda>fp.
                    bind (py_index f_ctrl (fp - 1)) (\<lambda>c.
                      if c = [] then raise RuntimeError
                      else parent_to (PyNode (f_grp ! fp) # map PyNode (butlast c)) (PyNode (last c)))))))),
          print ''!!! Operation: Controller Hierarchy successful.'']"

definition addFeetAttr :: "string \<Rightarrow> string \<Rightarrow> stmt" where
  "addFeetAttr foot_ctrl side =
     seq [object_check (Name foot_ctrl),
          addAttr foot_ctrl ''tip'',
          addAttr foot_ctrl ''ball'',
          addAttr foot_ctrl ''heel'',
          connectAttr (foot_ctrl @ ''.tip'') (''ik_loc_'' @ side @ ''_tip.rotateX''),
          connectAttr (foot_ctrl @ ''.ball'') (''ik_loc_'' @ side @ ''_ball.rotateX''),
          connectAttr (foot_ctrl @ ''.heel'') (''ik_loc_'' @ side @ ''_heel.rotateX''),
          print ''!!! Operation: Foot Attribute Setup successful.'']"

subsection \<open>The control rig\<close>

text \<open>Reading \<^verbatim>\<open>ik_jnts_check[k]\<close>.\<close>

definition ikj :: "nat \<Rightarrow> nat comp" where
  "ikj k = bind (query ik_jnts_check) (\<lambda>c. py_index c k)"

definition ik_limb_setup :: stmt where
  "ik_limb_setup =
     seq [bind (ikj 47) (\<lambda>e. create_ik e ''rp''),
          bind (ikj 48) (\<lambda>e. create_ik e ''sc''),
          bind (ikj 49) (\<lambda>e. create_ik e ''sc''),
          bind (ikj 52) (\<lambda>e. create_ik e ''rp''),
          bind (ikj 53) (\<lambda>e. create_ik e ''sc''),
          bind (ikj 54) (\<lambda>e. create_ik e ''sc''),
          bind (ikj 10) (\<lambda>e. create_ik e ''rp''),
          bind (ikj 29) (\<lambda>e. create_ik e ''rp''),
          bind (ikj 9) (\<lambda>p. setupPV p (''hdl_'' @ names ! 15) (0, 0, 35)),
          bind (ikj 28) (\<lambda>p. setupPV p (''hdl_'' @ names ! 41) (0, 0, 35)),
          bind (ikj 46) (\<lambda>p. setupPV p (''hdl_'' @ names ! 9) (0, 35, 0)),
          bind (ikj 51) (\<lambda>p. setupPV p (''hdl_'' @ names ! 35) (0, - 35, 0)),
          print ''!!! Operation: IK Limb Setup successful.'']"

definition py_last :: "'a list \<Rightarrow> 'a comp" where
  "py_last xs = (if xs = [] then raise IndexError else ret (last xs))"

definition spine_jnts :: "string list" where
  "spine_jnts = [''ikh_c_hips'', ''ikh_c_spine_b'', ''ikh_c_spine_c'', ''ikh_c_chest'']"

definition ik_spine_setup :: stmt where
  "ik_spine_setup =
     seq [bind (ikj 1) (\<lambda>st. bind (ikj 4) (\<lambda>en. ikHandle_spline ''hdl_c_spine'' ''easeIn'' st en)),
          bind (ikj 0) (\<lambda>r. bind (listRelatives_allDescendents (PyNode r)) (\<lambda>ds.
          bind (py_last ds) (\<lambda>spine_crv.
            seq [bind (rename (PyNode spine_crv) ''crv_c_spine'') (\<lambda>_. skip),
                 parent_to [PyNode spine_crv, Name ''hdl_c_spine''] (Name ''grp_rig_system'')]))),
          for_each spine_jnts (\<lambda>spine_jnt.
            seq [non_object_check (Name spine_jnt),
                 select_clear,
                 bind (joint_create spine_jnt) (\<lambda>_. skip)]),
          bind (ikj 1) (\<lambda>j. snap_parent (PyNode j) (Name (spine_jnts ! 0))),
          bind (ikj 2) (\<lambda>j. snap_parent (PyNode j) (Name (spine_jnts ! 1))),
          bind (ikj 3) (\<lambda>j. snap_parent (PyNode j) (Name (spine_jnts ! 2))),
          bind (ikj 4) (\<lambda>j. snap_parent (PyNode j) (Name (spine_jnts ! 3))),
          skinCluster_curve [spine_jnts ! 0, spine_jnts ! 1, spine_jnts ! 2, spine_jnts ! 3]
            ''crv_c_spine'' 3,
          parent_to (map Name (py_slice spine_jnts 0 4)) (Name ''grp_rig_system''),
          set_handle_attr ''hdl_c_spine'' ''inheritsTransform'' 0,
          set_handle_attr ''hdl_c_spine'' ''dTwistControlEnable'' 1,
          set_handle_attr ''hdl_c_spine'' ''dWorldUpType'' 4,
          set_handle_attr ''hdl_c_spine'' ''dForwardAxis'' 0,
          set_handle_attr ''hdl_c_spine'' ''dWorldUpAxis'' 0,
          connectAttr ''ikh_c_hips.worldMatrix[0]'' ''hdl_c_spine.dWorldUpMatrix'',
          connectAttr ''ikh_c_chest.worldMatrix[0]'' ''hdl_c_spine.dWorldUpMatrixEnd'',
          print ''!!! Operation: IK Spine Setup successful.'']"

definition lock_all :: "nat list list \<Rightarrow> bool list \<Rightarrow> stmt" where
  "lock_all groups trans_check =
     for_each groups (\<lambda>ctrl_l. for_each ctrl_l (\<lambda>clock. lock_attr (PyNode clock) trans_check True True))"

definition ctrl_creation :: stmt where
  "ctrl_creation =
     seq [emit (CurrentUnit ''cm''),
          modify (\<lambda>s. s\<lparr>ik_jnts_check := [], basic_ctrl_grp := [], null_grp := [], full_ctrl_grp := []\<rparr>),
          create_control_rig,
          ik_limb_setup,
          connect_rig,
          ik_spine_setup,
          reverseFoot,
          lock_attr (Name ''grp_rig_system'') [True, True, True] True True,
          nurbs_controller,
          bind (query null_grp) (\<lambda>n. for_each n (\<lambda>ngc.
            modify (\<lambda>s. s\<lparr>full_ctrl_grp := full_ctrl_grp s @ [children_of (nodes s) ngc]\<rparr>))),
          ctrl_functionality,
          ctrl_hierarchy,
          addFeetAttr ''ctrl_l_foot'' ''l'',
          addFeetAttr ''ctrl_r_foot'' ''r'',
          hide [Name ''grp_ik_rig'', Name ''grp_rig_system''],
          bind (query null_grp) (\<lambda>n. for_each n (\<lambda>null_l.
            lock_attr (PyNode null_l) [True, True, True] True True)),
          bind (query full_ctrl_grp) (\<lambda>f. lock_all f [False, False, True]),
          bind (query full_ctrl_grp) (\<lambda>f.
            lock_all (py_slice f 5 7 @ py_slice f 9 41) [True, False, True]),
          bind (query full_ctrl_grp) (\<lambda>f.
            lock_all (py_slice f 43 47 @ py_slice f 2 4) [False, True, True]),
          print ''!!! Operation: Controller Lock successful.'',
          select_clear]"

subsection \<open>Readings of a scene for the stage order\<close>

definition sig :: "node \<Rightarrow> string \<times> kind" where
  "sig x = (nname x, nkind x)"

text \<open>The number of names, from the start of the name list, whose locator exists.\<close>

definition first_missing_loc :: "state \<Rightarrow> nat" where
  "first_missing_loc s = length (takeWhile (\<lambda>m. objExists s (Name (''loc_'' @ m))) names)"

definition joints_of :: "string list \<Rightarrow> (string \<times> kind) list" where
  "joints_of ms = map (\<lambda>m. (''jnt_'' @ m, Joint)) ms"

definition created_upto :: "state \<Rightarrow> nat \<Rightarrow> state \<Rightarrow> bool" where
  "created_upto s k t = (k \<le> first_missing_loc s
     \<and> map sig (nodes t) = map sig (nodes s) @ joints_of (take k names))"

text \<open>A scene that has the first locator only.\<close>

definition one_loc_scene :: state where
  "one_loc_scene = empty_session\<lparr>nodes := [blank_node 0 ''loc_c_root'' Locator None], next_id := 1\<rparr>"

section \<open>Properties\<close>

subsection \<open>When a computation returns\<close>

lemma bind_Inr: "bind f g s = (Inr y, s') \<longleftrightarrow> (\<exists>x t. f s = (Inr x, t) \<and> g x t = (Inr y, s'))"
  by (auto simp: bind_def split: prod.splits sum.splits)

lemma seq_Cons_Inr: "seq (f # fs) s = (Inr y, s') \<longleftrightarrow> (\<exists>t. f s = (Inr (), t) \<and> seq fs t = (Inr y, s'))"
  by (simp add: bind_Inr)

lemma seq_Nil_Inr: "seq [] s = (Inr y, s') \<longleftrightarrow> s' = s"
  by (auto simp: skip_def ret_def)

lemma skip_Inr: "skip s = (Inr y, s') \<longleftrightarrow> s' = s"
  by (auto simp: skip_def ret_def)

lemma ret_Inr: "ret x s = (Inr y, s') \<longleftrightarrow> y = x \<and> s' = s"
  by (auto simp: ret_def)

lemma raise_Inr: "raise e s = (Inr y, s') \<longleftrightarrow> False"
  by (auto simp: raise_def)

lemma py_index_Inr: "py_index xs i s = (Inr x, s') \<longleftrightarrow> i < length xs \<and> x = xs ! i \<and> s' = s"
  by (auto simp: py_index_def ret_def raise_def)

lemma node_name_PyNode_Inr:
  "node_name (PyNode i) s = (Inr n, s') \<longleftrightarrow> (\<exists>x. get_node s i = Some x \<and> n = nname x \<and> s' = s)"
  by (auto simp: node_name_def split: option.splits)

lemma listRelatives_parent_single_Inr:
  "listRelatives_parent [i] s = (Inr ps, s') \<longleftrightarrow>
     (\<exists>x. get_node s i = Some x \<and> ps = (case nparent x of Some p \<Rightarrow> [p] | None \<Rightarrow> []) \<and> s' = s)"
  by (auto simp: listRelatives_parent_def split: option.splits)

lemma modify_Inr: "modify f s = (Inr y, s') \<longleftrightarrow> s' = f s"
  by (auto simp: modify_def)

lemma emit_Inr: "emit c s = (Inr y, s') \<longleftrightarrow> s' = s\<lparr>log := log s @ [c]\<rparr>"
  by (auto simp: emit_def modify_def)

lemma resolve_Inr: "resolve r s = (Inr i, s') \<longleftrightarrow> ls s r = [i] \<and> s' = s"
  by (auto simp: resolve_def split: list.splits)

lemma ls_PyNode_single: "ls s (PyNode i) = [j] \<Longrightarrow> j = i"
proof -
  assume "ls s (PyNode i) = [j]"
  then have "j \<in> set (map nid (filter (\<lambda>x. nid x = i) (nodes s)))"
    by (simp add: ls_def)
  then show ?thesis by auto
qed

lemma create_node_Inr:
  "create_node n k p s = (Inr i, s') \<longleftrightarrow>
     i = next_id s \<and> s' = s\<lparr>nodes := nodes s @ [blank_node (next_id s) (fresh_name s n) k p],
                             next_id := Suc (next_id s), selection := [next_id s]\<rparr>"
  by (auto simp: create_node_def Let_def)

lemma ikHandle_Inr:
  "ikHandle name solver st en tw s = (Inr y, s') \<longleftrightarrow>
     ls s (PyNode st) = [st] \<and> ls s (PyNode en) = [en] \<and>
     s' = s\<lparr>nodes := nodes s @ [blank_node (next_id s) (fresh_name s name) IkHandle None],
            next_id := Suc (next_id s), selection := [next_id s],
            log := log s @ [IkHandleCmd name solver st en tw]\<rparr>"
  by (auto simp: ikHandle_def bind_Inr resolve_Inr create_node_Inr emit_Inr dest: ls_PyNode_single)


lemma resolve_all_single_Inr: "resolve_all [r] s = (Inr is, s') \<longleftrightarrow> (\<exists>i. ls s r = [i] \<and> is = [i] \<and> s' = s)"
  by (simp add: bind_Inr resolve_Inr ret_Inr)

lemma parent_to_single_Inr:
  "parent_to [c] p s = (Inr y, s') \<longleftrightarrow>
     (\<exists>i j. ls s c = [i] \<and> ls s p = [j] \<and> s' = (reparent (Some j) i s)\<lparr>selection := [i]\<rparr>)"
  by (auto simp: parent_to_def bind_Inr ret_Inr resolve_Inr modify_Inr)

lemma when_do_Inr:
  "when_do b f s = (Inr y, s') \<longleftrightarrow> (if b then f s = (Inr y, s') else s' = s)"
  by (auto simp: when_do_def skip_def ret_def)

lemma fresh_name_free: "named s n = [] \<Longrightarrow> fresh_name s n = n"
  by (simp add: fresh_name_def)

lemma named_reparent:
  "named (reparent p i s) n =
     filter (\<lambda>x. nname x = n) (filter (\<lambda>x. nid x \<noteq> i) (nodes s))
     @ map (set_parent s p) (filter (\<lambda>x. nname x = n) (filter (\<lambda>x. nid x = i) (nodes s)))"
  by (simp add: named_def reparent_def filter_map o_def set_parent_def)

lemma ls_Name_named: "ls s (Name n) = map nid (named s n)"
  by (simp add: ls_def named_def)

lemma wf_fresh_id: "wf_state s \<Longrightarrow> x \<in> set (nodes s) \<Longrightarrow> nid x \<noteq> next_id s"
  by (auto simp: wf_state_def list_all_iff)

lemma listRelatives_parent_state: "listRelatives_parent xs s = (r, t) \<Longrightarrow> t = s"
  by (auto simp: listRelatives_parent_def Let_def split: if_splits)

lemma filter_fresh_id:
  "wf_state s \<Longrightarrow> filter (\<lambda>x. nid x \<noteq> next_id s) (nodes s) = nodes s"
  "wf_state s \<Longrightarrow> filter (\<lambda>x. nid x = next_id s) (nodes s) = []"
  by (auto simp: filter_id_conv filter_empty_conv dest: wf_fresh_id)

subsection \<open>C4: the start joint of an IK handle\<close>

lemma find_Some_mem: "find P xs = Some x \<Longrightarrow> x \<in> set xs \<and> P x"
  by (induction xs) (auto split: if_splits)

lemma filter_fresh_id2:
  "wf_state s \<Longrightarrow> filter (\<lambda>x. nid x \<noteq> next_id s) (nodes s) = nodes s"
  by (auto simp: wf_state_def list_all_iff filter_id_conv)

lemma filter_fresh_id3:
  "wf_state s \<Longrightarrow> filter (\<lambda>x. nid x = next_id s) (nodes s) = []"
  by (auto simp: wf_state_def list_all_iff filter_empty_conv)

lemma ls_PyNode_wf:
  "wf_state s \<Longrightarrow> get_node s i = Some x \<Longrightarrow> ls s (PyNode i) = [i]"
proof -
  assume wf: "wf_state s" and g: "get_node s i = Some x"
  from g have m: "x \<in> set (nodes s)" "nid x = i"
    by (auto simp: get_node_def dest: find_Some_mem)
  from wf have d: "distinct (map nid (nodes s))" by (simp add: wf_state_def)
  have "\<And>ns. distinct (map nid ns) \<Longrightarrow> x \<in> set ns \<Longrightarrow> map nid (filter (\<lambda>y. nid y = nid x) ns) = [nid x]"
  proof -
    fix ns show "distinct (map nid ns) \<Longrightarrow> x \<in> set ns \<Longrightarrow> map nid (filter (\<lambda>y. nid y = nid x) ns) = [nid x]"
      by (induction ns) (auto simp: filter_empty_conv image_iff)
  qed
  from this [OF d m(1)] m(2) show ?thesis by (simp add: ls_def)
qed

lemma create_ik_returns:
  assumes wf: "wf_state s"
    and e: "get_node s endj = Some x"
    and suf: "1 < length (py_split (nname x) ''ik_'')"
    and p: "nparent x = Some p" and pn: "get_node s p = Some y"
    and st: "solv = ''sc'' \<and> solver = ''ikSCsolver'' \<and> st = p
           \<or> solv = ''rp'' \<and> solver = ''ikRPsolver'' \<and> nparent y = Some st"
    and stn: "get_node s st = Some z"
    and free: "named s (''hdl_'' @ py_split (nname x) ''ik_'' ! 1) = []"
    and grp: "named s ''grp_rig_system'' = [g]"
  shows "\<exists>s' h. create_ik endj solv s = (Inr (), s')
      \<and> nodes s' = nodes s @ [h]
      \<and> nname h = ''hdl_'' @ py_split (nname x) ''ik_'' ! 1
      \<and> nkind h = IkHandle \<and> nparent h = Some (nid g)
      \<and> log s' = log s @ [IkHandleCmd (''hdl_'' @ py_split (nname x) ''ik_'' ! 1) solver st endj None]"
proof -
  define hn where "hn = ''hdl_'' @ py_split (nname x) ''ik_'' ! 1"
  define t where "t = s\<lparr>nodes := nodes s @ [blank_node (next_id s) hn IkHandle None],
            next_id := Suc (next_id s), selection := [next_id s],
            log := log s @ [IkHandleCmd hn solver st endj None]\<rparr>"
  have ne: "hn \<noteq> ''grp_rig_system''" by (simp add: hn_def)
  have free': "named s hn = []" using free by (simp add: hn_def)
  have l1: "listRelatives_parent [endj] s = (Inr [p], s)"
    using e p by (simp add: listRelatives_parent_def)
  have l2: "listRelatives_parent [p] s = (Inr (case nparent y of Some q \<Rightarrow> [q] | None \<Rightarrow> []), s)"
    using pn by (simp add: listRelatives_parent_def)
  have r1: "resolve (PyNode st) s = (Inr st, s)"
    using ls_PyNode_wf [OF wf stn] by (simp add: resolve_def)
  have r2: "resolve (PyNode endj) s = (Inr endj, s)"
    using ls_PyNode_wf [OF wf e] by (simp add: resolve_def)
  have h: "ikHandle hn solver st endj None s = (Inr (), t)"
    using free' by (simp add: ikHandle_def bind_def r1 r2 create_node_def Let_def emit_def modify_def
        fresh_name_free t_def)
  have lh: "ls t (Name hn) = [next_id s]"
    using free' by (simp add: ls_def t_def named_def blank_node_def)
  have lg: "ls t (Name ''grp_rig_system'') = [nid g]"
    using grp ne by (simp add: ls_def t_def named_def blank_node_def)
  define h' where "h' = set_parent t (Some (nid g)) (blank_node (next_id s) hn IkHandle None)"
  define s' where "s' = (reparent (Some (nid g)) (next_id s) t)\<lparr>selection := [next_id s]\<rparr>"
  have q: "parent_to [Name hn] (Name ''grp_rig_system'') t = (Inr (), s')"
    by (simp add: parent_to_def bind_def resolve_def lh lg ret_def modify_def s'_def)
  have n: "nodes s' = nodes s @ [h']"
    using wf by (simp add: s'_def reparent_def t_def filter_fresh_id2 filter_fresh_id3 h'_def blank_node_def)
  have hp: "nname h' = hn \<and> nkind h' = IkHandle \<and> nparent h' = Some (nid g)"
    by (simp add: h'_def set_parent_def blank_node_def)
  have lg': "log s' = log s @ [IkHandleCmd hn solver st endj None]"
    by (simp add: s'_def reparent_def t_def)
  have nn: "node_name (PyNode endj) s = (Inr (nname x), s)"
    using e by (simp add: node_name_def)
  from st have run: "create_ik endj solv s = (Inr (), s')"
  proof
    assume a: "solv = ''sc'' \<and> solver = ''ikSCsolver'' \<and> st = p"
    then show ?thesis
      using suf h q
      by (simp add: create_ik_def bind_def nn l1 l2 Let_def when_do_def py_index_def ret_def skip_def
          hn_def)
  next
    assume a: "solv = ''rp'' \<and> solver = ''ikRPsolver'' \<and> nparent y = Some st"
    then show ?thesis
      using suf h q
      by (simp add: create_ik_def bind_def nn l1 l2 Let_def when_do_def py_index_def ret_def skip_def
          hn_def)
  qed
  from run n hp lg' show ?thesis unfolding hn_def by blast
qed

text \<open>
  Claim C4, amended. In a scene where \<open>end\<close> is an object whose name has a part after
  \<^verbatim>\<open>'ik_'\<close> (the suffix), the parent of \<open>end\<close> exists (for \<^verbatim>\<open>'rp'\<close> also the parent of that
  parent), one object is named \<^verbatim>\<open>grp_rig_system\<close> and no object is named
  \<^verbatim>\<open>'hdl_' + suffix\<close>, every call \<open>create_ik end solv\<close> with \<open>solv\<close> one of \<^verbatim>\<open>'sc'\<close> and \<^verbatim>\<open>'rp'\<close>
  returns, and the scene it leaves is the scene before with one more object: the handle
  named \<^verbatim>\<open>'hdl_' + suffix\<close>, a child of \<^verbatim>\<open>grp_rig_system\<close>. The one handle command that was
  issued uses the \<^verbatim>\<open>ikSCsolver\<close> with start joint the parent of \<open>end\<close> when \<open>solv\<close> is
  \<^verbatim>\<open>'sc'\<close>, and the \<^verbatim>\<open>ikRPsolver\<close> with start joint the grandparent of \<open>end\<close> when it is
  \<^verbatim>\<open>'rp'\<close>.
\<close>

theorem create_ik_start_joint:
  assumes wf: "wf_state s"
    and e: "get_node s endj = Some x"
    and suf: "1 < length (py_split (nname x) ''ik_'')"
    and free: "named s (''hdl_'' @ py_split (nname x) ''ik_'' ! 1) = []"
    and grp: "named s ''grp_rig_system'' = [g]"
    and p: "parent_of s endj = Some p" and pn: "get_node s p \<noteq> None"
    and gp: "solv = ''rp'' \<longrightarrow> (\<exists>q. parent_of s p = Some q \<and> get_node s q \<noteq> None)"
    and solv: "solv = ''sc'' \<or> solv = ''rp''"
  shows "\<exists>s' h. create_ik endj solv s = (Inr (), s')
     \<and> nodes s' = nodes s @ [h]
     \<and> nname h = ''hdl_'' @ py_split (nname x) ''ik_'' ! 1
     \<and> nkind h = IkHandle
     \<and> nparent h = Some (nid g)
     \<and> (solv = ''sc'' \<longrightarrow> log s' = log s @
           [IkHandleCmd (''hdl_'' @ py_split (nname x) ''ik_'' ! 1) ''ikSCsolver'' p endj None])
     \<and> (solv = ''rp'' \<longrightarrow> (\<exists>q. parent_of s p = Some q \<and> log s' = log s @
           [IkHandleCmd (''hdl_'' @ py_split (nname x) ''ik_'' ! 1) ''ikRPsolver'' q endj None]))"
proof -
  from p e have px: "nparent x = Some p"
    by (simp add: parent_of_def)
  from pn obtain y where y: "get_node s p = Some y" by blast
  from solv show ?thesis
  proof
    assume sc: "solv = ''sc''"
    have st: "solv = ''sc'' \<and> ''ikSCsolver'' = ''ikSCsolver'' \<and> p = p
           \<or> solv = ''rp'' \<and> ''ikSCsolver'' = ''ikRPsolver'' \<and> nparent y = Some p"
      using sc by simp
    from create_ik_returns [OF wf e suf px y st y free grp] sc show ?thesis
      by auto
  next
    assume rp: "solv = ''rp''"
    with gp y obtain q z where q: "nparent y = Some q" "get_node s q = Some z"
      by (auto simp: parent_of_def)
    have st: "solv = ''sc'' \<and> ''ikRPsolver'' = ''ikSCsolver'' \<and> q = p
           \<or> solv = ''rp'' \<and> ''ikRPsolver'' = ''ikRPsolver'' \<and> nparent y = Some q"
      using rp q by simp
    from create_ik_returns [OF wf e suf px y st q(2) free grp] rp q y show ?thesis
      by (auto simp: parent_of_def)
  qed
qed

theorem create_ik_start_joint_witness:
  "(\<exists>s' h. create_ik 4 ''sc'' leg_scene = (Inr (), s')
       \<and> nodes s' = nodes leg_scene @ [h]
       \<and> nname h = ''hdl_l_ball'' \<and> nkind h = IkHandle \<and> nparent h = Some 0
       \<and> log s' = [IkHandleCmd ''hdl_l_ball'' ''ikSCsolver'' 3 4 None])
   \<and> (\<exists>s' h. create_ik 3 ''rp'' leg_scene = (Inr (), s')
       \<and> nodes s' = nodes leg_scene @ [h]
       \<and> nname h = ''hdl_l_foot'' \<and> nkind h = IkHandle \<and> nparent h = Some 0
       \<and> log s' = [IkHandleCmd ''hdl_l_foot'' ''ikRPsolver'' 1 3 None])"
proof -
  have wf: "wf_state leg_scene"
    by (simp add: wf_state_def leg_scene_def empty_session_def blank_node_def)
  have g: "named leg_scene ''grp_rig_system'' = [blank_node 0 ''grp_rig_system'' Transform None]"
    by code_simp
  have lg: "log leg_scene = []"
    by (simp add: leg_scene_def empty_session_def)
  have e4: "get_node leg_scene 4 = Some (blank_node 4 ''ik_l_ball'' Joint (Some 3))"
    by code_simp
  have e3: "get_node leg_scene 3 = Some (blank_node 3 ''ik_l_foot'' Joint (Some 2))"
    by code_simp
  have n4: "py_split (nname (blank_node 4 ''ik_l_ball'' Joint (Some 3))) ''ik_'' = [[], ''l_ball'']"
    by code_simp
  have n3: "py_split (nname (blank_node 3 ''ik_l_foot'' Joint (Some 2))) ''ik_'' = [[], ''l_foot'']"
    by code_simp
  have f4: "named leg_scene (''hdl_'' @ py_split (nname (blank_node 4 ''ik_l_ball'' Joint (Some 3))) ''ik_'' ! 1) = []"
    by code_simp
  have f3: "named leg_scene (''hdl_'' @ py_split (nname (blank_node 3 ''ik_l_foot'' Joint (Some 2))) ''ik_'' ! 1) = []"
    by code_simp
  have s4: "1 < length (py_split (nname (blank_node 4 ''ik_l_ball'' Joint (Some 3))) ''ik_'')"
    by (simp add: n4)
  have s3: "1 < length (py_split (nname (blank_node 3 ''ik_l_foot'' Joint (Some 2))) ''ik_'')"
    by (simp add: n3)
  have m4: "py_split ''ik_l_ball'' ''ik_'' = [[], ''l_ball'']"
    by code_simp
  have m3: "py_split ''ik_l_foot'' ''ik_'' = [[], ''l_foot'']"
    by code_simp
  have p4: "parent_of leg_scene 4 = Some 3" by code_simp
  have p3: "parent_of leg_scene 3 = Some 2" by code_simp
  have p2: "parent_of leg_scene 2 = Some 1" by code_simp
  have x3: "get_node leg_scene 3 \<noteq> None" by (simp add: e3)
  have x2: "get_node leg_scene 2 \<noteq> None" by code_simp
  have x1: "get_node leg_scene 1 \<noteq> None" by code_simp
  have gsc: "''sc'' = ''rp'' \<longrightarrow> (\<exists>q. parent_of leg_scene 3 = Some q \<and> get_node leg_scene q \<noteq> None)"
    by simp
  have grp: "''rp'' = ''rp'' \<longrightarrow> (\<exists>q. parent_of leg_scene 2 = Some q \<and> get_node leg_scene q \<noteq> None)"
    using p2 x1 by simp
  have a: "\<exists>s' h. create_ik 4 ''sc'' leg_scene = (Inr (), s')
       \<and> nodes s' = nodes leg_scene @ [h]
       \<and> nname h = ''hdl_l_ball'' \<and> nkind h = IkHandle \<and> nparent h = Some 0
       \<and> log s' = [IkHandleCmd ''hdl_l_ball'' ''ikSCsolver'' 3 4 None]"
    using create_ik_start_joint [OF wf e4 s4 f4 g p4 x3 gsc]
    by (simp add: m4 lg blank_node_def)
  have b: "\<exists>s' h. create_ik 3 ''rp'' leg_scene = (Inr (), s')
       \<and> nodes s' = nodes leg_scene @ [h]
       \<and> nname h = ''hdl_l_foot'' \<and> nkind h = IkHandle \<and> nparent h = Some 0
       \<and> log s' = [IkHandleCmd ''hdl_l_foot'' ''ikRPsolver'' 1 3 None]"
    using create_ik_start_joint [OF wf e3 s3 f3 g p3 x2 grp]
    by (simp add: m3 lg p2 blank_node_def)
  from a b show ?thesis by blast
qed

text \<open>The claim as stated fails where an object named \<^verbatim>\<open>hdl_l_foot\<close> exists already: the
  call returns, the handle it created got the name \<^verbatim>\<open>hdl_l_foot1\<close> and is left at world
  level, and the object that was moved under \<^verbatim>\<open>grp_rig_system\<close> is the old one.\<close>

theorem create_ik_taken_name_counterexample:
  "fst (create_ik 3 ''rp'' taken_leg_scene) = Inr ()
   \<and> map (\<lambda>x. (nid x, nname x, nkind x, nparent x)) (nodes taken_leg_scene)
     = [(0, ''grp_rig_system'', Transform, None),
        (1, ''ik_l_thigh'', Joint, None),
        (2, ''ik_l_knee'', Joint, Some 1),
        (3, ''ik_l_foot'', Joint, Some 2),
        (4, ''ik_l_ball'', Joint, Some 3),
        (5, ''hdl_l_foot'', Transform, None)]
   \<and> map (\<lambda>x. (nid x, nname x, nkind x, nparent x)) (nodes (snd (create_ik 3 ''rp'' taken_leg_scene)))
     = [(0, ''grp_rig_system'', Transform, None),
        (1, ''ik_l_thigh'', Joint, None),
        (2, ''ik_l_knee'', Joint, Some 1),
        (3, ''ik_l_foot'', Joint, Some 2),
        (4, ''ik_l_ball'', Joint, Some 3),
        (6, ''hdl_l_foot1'', IkHandle, None),
        (5, ''hdl_l_foot'', Transform, Some 0)]
   \<and> log (snd (create_ik 3 ''rp'' taken_leg_scene)) = [IkHandleCmd ''hdl_l_foot'' ''ikRPsolver'' 1 3 None]"
  by code_simp

subsection \<open>C7: skin binding is guarded\<close>





subsection \<open>Rules for specifications\<close>

lemma specI:
  "(\<And>s x s'. P s \<Longrightarrow> f s = (Inr x, s') \<Longrightarrow> Q x s') \<Longrightarrow>
   (\<And>s e s'. P s \<Longrightarrow> f s = (Inl e, s') \<Longrightarrow> E e s') \<Longrightarrow> spec P f Q E"
  by (auto simp: spec_def split: prod.splits sum.splits)

lemma specD_Inr: "spec P f Q E \<Longrightarrow> P s \<Longrightarrow> f s = (Inr x, s') \<Longrightarrow> Q x s'"
  by (auto simp: spec_def split: prod.splits sum.splits)

lemma specD_Inl: "spec P f Q E \<Longrightarrow> P s \<Longrightarrow> f s = (Inl e, s') \<Longrightarrow> E e s'"
  by (auto simp: spec_def split: prod.splits sum.splits)

lemma spec_weaken:
  "spec P' f Q' E' \<Longrightarrow> (\<And>s. P s \<Longrightarrow> P' s) \<Longrightarrow> (\<And>x s. Q' x s \<Longrightarrow> Q x s) \<Longrightarrow>
   (\<And>e s. E' e s \<Longrightarrow> E e s) \<Longrightarrow> spec P f Q E"
proof (rule specI)
  fix s x s' assume a: "spec P' f Q' E'" "\<And>s. P s \<Longrightarrow> P' s" "\<And>x s. Q' x s \<Longrightarrow> Q x s" "P s" "f s = (Inr x, s')"
  then show "Q x s'" using specD_Inr [of P' f Q' E' s x s'] by blast
next
  fix s e s' assume a: "spec P' f Q' E'" "\<And>s. P s \<Longrightarrow> P' s" "\<And>e s. E' e s \<Longrightarrow> E e s" "P s" "f s = (Inl e, s')"
  then show "E e s'" using specD_Inl [of P' f Q' E' s e s'] by blast
qed

lemma spec_bind:
  "spec P f R E \<Longrightarrow> (\<And>x. spec (R x) (g x) Q E) \<Longrightarrow> spec P (bind f g) Q E"
proof (rule specI)
  fix s y s' assume a: "spec P f R E" "\<And>x. spec (R x) (g x) Q E" "P s" "bind f g s = (Inr y, s')"
  then obtain x t where "f s = (Inr x, t)" "g x t = (Inr y, s')"
    by (auto simp: bind_def split: prod.splits sum.splits)
  with a show "Q y s'"
    using specD_Inr [of P f R E s x t] specD_Inr [of "R x" "g x" Q E t y s'] by blast
next
  fix s e s' assume a: "spec P f R E" "\<And>x. spec (R x) (g x) Q E" "P s" "bind f g s = (Inl e, s')"
  then consider "f s = (Inl e, s')" | x t where "f s = (Inr x, t)" "g x t = (Inl e, s')"
    by (auto simp: bind_def split: prod.splits sum.splits)
  then show "E e s'"
  proof cases
    case 1
    with a show ?thesis using specD_Inl [of P f R E s e s'] by blast
  next
    case 2
    with a show ?thesis
      using specD_Inr [of P f R E s x t] specD_Inl [of "R x" "g x" Q E t e s'] by blast
  qed
qed

lemma spec_ret: "spec (Q x) (ret x) Q E"
  by (simp add: spec_def ret_def)

lemma spec_skip: "spec (Q ()) skip Q E"
  by (simp add: spec_def skip_def ret_def)

lemma spec_raise: "spec (E e) (raise e) Q E"
  by (simp add: spec_def raise_def)

lemma spec_modify: "spec (\<lambda>s. Q () (f s)) (modify f) Q E"
  by (simp add: spec_def modify_def)

lemma spec_query: "spec (\<lambda>s. Q (f s) s) (query f) Q E"
  by (simp add: spec_def query_def)

lemma spec_seq_Nil: "spec (Q ()) (seq []) Q E"
  by (simp add: spec_skip)

lemma spec_seq_Cons:
  "spec P f (\<lambda>_. R) E \<Longrightarrow> spec R (seq fs) Q E \<Longrightarrow> spec P (seq (f # fs)) Q E"
  by (simp add: spec_bind)

lemma spec_seq_inv:
  "(\<And>f. f \<in> set fs \<Longrightarrow> spec I f (\<lambda>_. I) E) \<Longrightarrow> spec I (seq fs) (\<lambda>_. I) E"
proof (induction fs)
  case Nil
  show ?case by (rule spec_seq_Nil)
next
  case (Cons f fs)
  show ?case
    by (rule spec_seq_Cons [where R = I]) (simp_all add: Cons)
qed

lemma spec_for_each_inv:
  "(\<And>x. x \<in> set xs \<Longrightarrow> spec I (body x) (\<lambda>_. I) E) \<Longrightarrow> spec I (for_each xs body) (\<lambda>_. I) E"
  unfolding for_each_def by (rule spec_seq_inv) auto

lemma spec_for_each_prefix:
  assumes "\<And>ys x zs. xs = ys @ x # zs \<Longrightarrow> spec (I ys) (body x) (\<lambda>_. I (ys @ [x])) E"
  shows "spec (I []) (for_each xs body) (\<lambda>_. I xs) E"
proof -
  have "\<And>ys. (\<And>ys' x zs. ys @ xs' = ys' @ x # zs \<Longrightarrow> length ys \<le> length ys' \<Longrightarrow>
              spec (I ys') (body x) (\<lambda>_. I (ys' @ [x])) E) \<Longrightarrow>
        spec (I ys) (for_each xs' body) (\<lambda>_. I (ys @ xs')) E" for xs'
  proof (induction xs')
    case Nil
    show ?case by (simp add: for_each_def spec_def skip_def ret_def)
  next
    case (Cons x xs')
    have a: "spec (I ys) (body x) (\<lambda>_. I (ys @ [x])) E"
      by (rule Cons.prems) simp_all
    have b: "spec (I (ys @ [x])) (for_each xs' body) (\<lambda>_. I ((ys @ [x]) @ xs')) E"
      by (rule Cons.IH) (rule Cons.prems, simp_all)
    from a b show ?case
      by (simp add: for_each_def spec_bind)
  qed
  from this [of "[]" xs] assms show ?thesis by simp
qed

lemma spec_when_do:
  "(b \<Longrightarrow> spec P f Q E) \<Longrightarrow> (\<not> b \<Longrightarrow> \<forall>s. P s \<longrightarrow> Q () s) \<Longrightarrow> spec P (when_do b f) Q E"
  by (auto simp: when_do_def spec_def skip_def ret_def)

lemma spec_py_index:
  "spec (\<lambda>s. if i < length xs then Q (xs ! i) s else E IndexError s) (py_index xs i) Q E"
  by (simp add: spec_def py_index_def ret_def raise_def)

lemma spec_resolve:
  "spec (\<lambda>s. case ls s r of [i] \<Rightarrow> Q i s | _ \<Rightarrow> \<forall>m. E (MayaNodeError m) s) (resolve r) Q E"
  by (auto simp: spec_def resolve_def split: list.splits)

lemma bind_Inl: "bind f g s = (Inl e, s') \<longleftrightarrow>
    f s = (Inl e, s') \<or> (\<exists>x t. f s = (Inr x, t) \<and> g x t = (Inl e, s'))"
  by (auto simp: bind_def split: prod.splits sum.splits)

lemma resolve_Inl: "resolve r s = (Inl e, s') \<Longrightarrow> (\<exists>m. e = MayaNodeError m) \<and> s' = s"
  by (auto simp: resolve_def split: list.splits)

lemma resolve_all_Inr: "resolve_all rs s = (Inr is, s') \<Longrightarrow> s' = s \<and> map (ls s) rs = map (\<lambda>i. [i]) is"
  by (induction rs arbitrary: "is" s') (auto simp: ret_def bind_Inr resolve_Inr)

lemma resolve_all_Inl: "resolve_all rs s = (Inl e, s') \<Longrightarrow> (\<exists>m. e = MayaNodeError m) \<and> s' = s"
proof (induction rs arbitrary: s')
  case Nil
  then show ?case by (simp add: ret_def)
next
  case (Cons r rs)
  then show ?case
    by (auto simp: bind_Inl ret_def resolve_Inr dest: resolve_Inl)
qed

lemma spec_resolve_all:
  "spec P (resolve_all rs) (\<lambda>is s. P s \<and> map (ls s) rs = map (\<lambda>i. [i]) is) (\<lambda>e s. P s \<and> (\<exists>m. e = MayaNodeError m))"
  by (rule specI) (auto dest: resolve_all_Inr resolve_all_Inl)

lemma nodes_transform_name:
  "map nname (nodes (transform i f s)) = map nname (nodes s)" if "\<And>x. nname (f x) = nname x"
  using that by (auto simp: transform_def follow_def split: option.splits)

lemma ls_Name_mem:
  assumes "ls s (Name n) = [i]"
  shows "\<exists>x \<in> set (nodes s). nname x = n \<and> nid x = i"
proof -
  have "i \<in> set (ls s (Name n))" by (simp add: assms)
  then show ?thesis by (auto simp: ls_def)
qed

lemma named_remove_nodes:
  assumes "ls s (Name n) = [i]"
  shows "named (remove_nodes [i] s) n = []"
proof -
  have "\<And>x. x \<in> set (nodes s) \<Longrightarrow> nname x = n \<Longrightarrow> nid x = i"
  proof -
    fix x assume "x \<in> set (nodes s)" "nname x = n"
    then have "nid x \<in> set (ls s (Name n))" by (auto simp: ls_def)
    with assms show "nid x = i" by simp
  qed
  moreover have "i \<in> set (descendants s [i])"
  proof -
    from ls_Name_mem [OF assms] have "i \<in> set (map nid (nodes s))"
      by auto
    then show ?thesis by (auto simp: descendants_def)
  qed
  ultimately show ?thesis
    by (auto simp: named_def remove_nodes_def Let_def filter_empty_conv)
qed

subsection \<open>C10: resetting to the skeleton before a skeleton was built\<close>

lemma spec_False: "spec (\<lambda>_. False) f Q E"
  by (simp add: spec_def)

lemma reset_showHidden:
  "spec reset_cleared (showHidden rs) (\<lambda>_. reset_cleared) (\<lambda>e s. e = IndexError \<longrightarrow> reset_post s)"
  by (rule specI)
    (auto simp: showHidden_def bind_Inr bind_Inl modify_def upd_nodes_def reset_cleared_def
      dest!: resolve_all_Inr resolve_all_Inl)

lemma reset_delete:
  "spec reset_cleared
     (bind (query (\<lambda>s. objExists s (Name ''grp_control_rig''))) (\<lambda>b.
            when_do b (delete_objs [Name ''grp_control_rig''])))
     (\<lambda>_. reset_zeroed []) (\<lambda>e s. e = IndexError \<longrightarrow> reset_post s)"
proof (rule specI)
  fix s x s' assume a: "reset_cleared s"
    and b: "bind (query (\<lambda>s. objExists s (Name ''grp_control_rig''))) (\<lambda>b.
            when_do b (delete_objs [Name ''grp_control_rig''])) s = (Inr x, s')"
  show "reset_zeroed [] s'"
  proof (cases "objExists s (Name ''grp_control_rig'')")
    case False
    with a b show ?thesis
      by (auto simp: bind_Inr query_def when_do_def skip_def ret_def reset_zeroed_def
          objExists_def ls_def named_def)
  next
    case True
    with b obtain i where i: "ls s (Name ''grp_control_rig'') = [i]" and s': "s' = remove_nodes [i] s"
      by (auto simp: bind_Inr query_def when_do_def delete_objs_def modify_def ret_def resolve_Inr)
    from named_remove_nodes [OF i] a show ?thesis
      by (simp add: s' reset_zeroed_def reset_cleared_def remove_nodes_def Let_def named_def)
  qed
next
  fix s e s' assume "bind (query (\<lambda>s. objExists s (Name ''grp_control_rig''))) (\<lambda>b.
            when_do b (delete_objs [Name ''grp_control_rig''])) s = (Inl e, s')"
  then show "e = IndexError \<longrightarrow> reset_post s'"
    by (auto simp: bind_Inl bind_Inr query_def when_do_def skip_def ret_def delete_objs_def modify_def
        split: if_splits dest!: resolve_Inl)
qed

lemma transform_pres:
  assumes "x \<in> set (nodes s)" "P x" "\<And>x. P x \<Longrightarrow> P (f x)" "\<And>a b x. P x \<Longrightarrow> P (follow s a b x)"
  shows "\<exists>y \<in> set (nodes (transform i f s)). P y"
proof (cases "get_node s i")
  case None
  with assms show ?thesis by (auto simp: transform_def)
next
  case (Some old)
  let ?g = "\<lambda>x. if nid x = i then f x
                 else if nid x \<in> set (proper_descendants s i) then follow s old (f old) x else x"
  have "?g x \<in> set (nodes (transform i f s))"
    using assms(1) Some by (simp add: transform_def)
  moreover have "P (?g x)"
    using assms by simp
  ultimately show ?thesis by blast
qed

lemma transform_hits:
  assumes "x \<in> set (nodes s)" "nid x = i"
  shows "f x \<in> set (nodes (transform i f s))"
proof -
  from assms have "get_node s i \<noteq> None"
    by (auto simp: get_node_def find_None_iff)
  then obtain old where old: "get_node s i = Some old" by blast
  show ?thesis
    using assms old by (force simp: transform_def)
qed

lemma transform_keeps_zeroed:
  assumes "list_ex (\<lambda>x. nname x = m \<and> lrot x = (0, 0, 0)) (nodes s)"
  shows "list_ex (\<lambda>x. nname x = m \<and> lrot x = (0, 0, 0)) (nodes (transform i (zero_rotation s) s))"
proof -
  from assms obtain x where x: "x \<in> set (nodes s)" "nname x = m \<and> lrot x = (0, 0, 0)"
    by (auto simp: list_ex_iff)
  have "\<exists>y \<in> set (nodes (transform i (zero_rotation s) s)). nname y = m \<and> lrot y = (0, 0, 0)"
    by (rule transform_pres [where P = "\<lambda>y. nname y = m \<and> lrot y = (0, 0, 0)", OF x])
      (simp_all add: zero_rotation_def follow_def)
  then show ?thesis by (simp add: list_ex_iff)
qed

lemma transform_zeroes:
  assumes "ls s (Name m) = [i]"
  shows "list_ex (\<lambda>x. nname x = m \<and> lrot x = (0, 0, 0)) (nodes (transform i (zero_rotation s) s))"
proof -
  from ls_Name_mem [OF assms] obtain x where x: "x \<in> set (nodes s)" "nname x = m" "nid x = i"
    by blast
  from transform_hits [OF x(1,3)]
  have "zero_rotation s x \<in> set (nodes (transform i (zero_rotation s) s))" .
  moreover have "nname (zero_rotation s x) = m \<and> lrot (zero_rotation s x) = (0, 0, 0)"
    using x by (simp add: zero_rotation_def follow_def)
  ultimately show ?thesis
    unfolding list_ex_iff by blast
qed

lemma reset_zero_step:
  "spec (reset_zeroed ys) (xform_os_rotation_zero (Name (''jnt_'' @ n)))
     (\<lambda>_. reset_zeroed (ys @ [n])) (\<lambda>e s. e = IndexError \<longrightarrow> reset_post s)"
proof (rule specI)
  fix s x s' assume a: "reset_zeroed ys s"
    and b: "xform_os_rotation_zero (Name (''jnt_'' @ n)) s = (Inr x, s')"
  from b obtain i where i: "ls s (Name (''jnt_'' @ n)) = [i]"
    and s': "s' = transform i (zero_rotation s) s"
    by (auto simp: xform_os_rotation_zero_def bind_Inr resolve_Inr modify_def)
  have nm: "map nname (nodes s') = map nname (nodes s)"
    unfolding s' by (rule nodes_transform_name) (simp add: zero_rotation_def follow_def)
  have "named s' ''grp_control_rig'' = []"
  proof -
    from a have "''grp_control_rig'' \<notin> set (map nname (nodes s))"
      by (auto simp: reset_zeroed_def named_def filter_empty_conv)
    with nm show ?thesis
      by (auto simp: named_def filter_empty_conv simp del: set_map) (metis image_eqI list.set_map)
  qed
  moreover have "reset_cleared s'"
    using a by (simp add: s' reset_zeroed_def reset_cleared_def transform_def split: option.splits)
  moreover have "list_all (\<lambda>n. list_ex (\<lambda>x. nname x = ''jnt_'' @ n \<and> lrot x = (0, 0, 0)) (nodes s')) ys"
    using a unfolding s' reset_zeroed_def list_all_iff
    by (auto intro: transform_keeps_zeroed)
  moreover have "list_ex (\<lambda>x. nname x = ''jnt_'' @ n \<and> lrot x = (0, 0, 0)) (nodes s')"
    unfolding s' by (rule transform_zeroes [OF i])
  ultimately show "reset_zeroed (ys @ [n]) s'"
    by (simp add: reset_zeroed_def)
next
  fix s e s' assume "xform_os_rotation_zero (Name (''jnt_'' @ n)) s = (Inl e, s')"
  then show "e = IndexError \<longrightarrow> reset_post s'"
    by (auto simp: xform_os_rotation_zero_def bind_Inl modify_def dest!: resolve_Inl)
qed

lemma reset_index:
  "spec (reset_zeroed (py_slice names 0 31 @ py_slice names 33 57))
     (bind (query og_root_pos) (\<lambda>og. bind (py_index og k) (\<lambda>p0. g p0)))
     (\<lambda>_ _. False) (\<lambda>e s. e = IndexError \<longrightarrow> reset_post s)"
  by (rule specI)
    (auto simp: bind_Inr bind_Inl query_def py_index_def ret_def raise_def reset_zeroed_def
      reset_cleared_def reset_post_def)

lemma reset_jnts_spec:
  "spec (\<lambda>s. og_root_pos s = []) reset_jnts (\<lambda>_ _. False) (\<lambda>e s. e = IndexError \<longrightarrow> reset_post s)"
  unfolding reset_jnts_def Let_def
  apply (rule spec_seq_Cons [where R = reset_cleared])
   apply (rule specI; auto simp: modify_def reset_cleared_def)
  apply (rule spec_seq_Cons [where R = reset_cleared])
   apply (rule reset_showHidden)
  apply (rule spec_seq_Cons [where R = "reset_zeroed []"])
   apply (rule reset_delete)
  apply (rule spec_seq_Cons [where R = "reset_zeroed (py_slice names 0 31 @ py_slice names 33 57)"])
   apply (rule spec_for_each_prefix [where I = reset_zeroed])
   apply (rule reset_zero_step)
  apply (rule spec_seq_Cons [where R = "\<lambda>_. False"])
   apply (rule reset_index)
  apply (rule spec_False)
  done

lemma name_count_cong:
  "map nname (nodes s') = map nname (nodes s) \<Longrightarrow> name_count s' n = name_count s n"
proof -
  assume a: "map nname (nodes s') = map nname (nodes s)"
  have h: "\<And>t. name_count t n = length (filter (\<lambda>m. m = n) (map nname (nodes t)))"
    by (simp add: name_count_def named_def filter_map o_def)
  show ?thesis unfolding h a ..
qed

lemma find_map_nid:
  "(\<And>x. nid (g x) = nid x) \<Longrightarrow>
   find (\<lambda>x. nid x = i) (map g ns) = map_option g (find (\<lambda>x. nid x = i) ns)"
  by (induction ns) auto

lemma up_map:
  assumes "\<And>x. nid (g x) = nid x" "\<And>x. nparent (g x) = nparent x"
  shows "up (map g ns) k i = up ns k i"
proof (induction k arbitrary: i)
  case 0
  show ?case by simp
next
  case (Suc k)
  show ?case
    by (cases "find (\<lambda>x. nid x = i) ns")
      (simp_all add: find_map_nid [of g, OF assms(1)] assms(2) Suc.IH split: option.splits)
qed

lemma descendants_map:
  assumes n: "nodes t = map g (nodes s)"
    and "\<And>x. nid (g x) = nid x" "\<And>x. nparent (g x) = nparent x"
  shows "descendants t D = descendants s D"
proof -
  have "\<And>j. ancestors t j = ancestors s j"
    by (simp add: ancestors_def n up_map [of g, OF assms(2,3)])
  then show ?thesis
    by (simp add: descendants_def below_def n assms(2) o_def)
qed

lemma name_count_ls: "name_count s n = length (ls s (Name n))"
  by (simp add: name_count_def named_def ls_def)

lemma name_count_names:
  "name_count s n = length (filter (\<lambda>m. m = n) (map nname (nodes s)))"
  by (simp add: name_count_def named_def filter_map o_def)

lemma resolve_count:
  "resolve (Name n) s = (r, t) \<Longrightarrow>
     t = s \<and> (name_count s n = 1 \<longrightarrow> (\<exists>i. r = Inr i \<and> ls s (Name n) = [i]))
     \<and> (name_count s n \<noteq> 1 \<longrightarrow> (\<exists>m. r = Inl (MayaNodeError m)))"
  by (auto simp: name_count_ls resolve_def split: list.splits)

lemma show_step:
  assumes "showHidden [Name n] s = (r, t)"
  shows "(name_count s n = 1 \<longrightarrow> r = Inr () \<and> (\<exists>ids. t = upd_nodes ids (\<lambda>x. x\<lparr>nhidden := False\<rparr>) s))
     \<and> (name_count s n \<noteq> 1 \<longrightarrow> (\<exists>m. r = Inl (MayaNodeError m)))"
proof -
  obtain r1 t1 where a: "resolve (Name n) s = (r1, t1)" by force
  from resolve_count [OF a] assms a show ?thesis
    by (cases "name_count s n = 1") (auto simp: showHidden_def bind_def ret_def modify_def)
qed

lemma descendants_Nil: "descendants s [] = []"
  by (simp add: descendants_def below_def list_ex_iff)

lemma delete_step:
  assumes "bind (query (\<lambda>s. objExists s (Name ''grp_control_rig''))) (\<lambda>b.
            when_do b (delete_objs [Name ''grp_control_rig''])) s = (r, t)"
  shows "(name_count s ''grp_control_rig'' \<le> 1 \<longrightarrow>
            r = Inr () \<and> nodes t = outside_control_rig s \<and> og_root_pos t = og_root_pos s)
     \<and> (\<not> name_count s ''grp_control_rig'' \<le> 1 \<longrightarrow> (\<exists>m. r = Inl (MayaNodeError m)))"
proof -
  obtain r1 t1 where a: "resolve (Name ''grp_control_rig'') s = (r1, t1)" by force
  consider "name_count s ''grp_control_rig'' = 0" | "name_count s ''grp_control_rig'' = 1"
    | "name_count s ''grp_control_rig'' > 1" by linarith
  then show ?thesis
  proof cases
    case 1
    then have l: "ls s (Name ''grp_control_rig'') = []"
      by (simp add: name_count_ls)
    with assms 1 show ?thesis
      by (simp add: bind_def query_def objExists_def when_do_def skip_def ret_def
          outside_control_rig_def descendants_Nil)
  next
    case 2
    with resolve_count [OF a] obtain i where i: "ls s (Name ''grp_control_rig'') = [i]" "r1 = Inr i" "t1 = s"
      by auto
    with assms a 2 show ?thesis
      by (auto simp: bind_def query_def objExists_def when_do_def delete_objs_def ret_def modify_def
          outside_control_rig_def remove_nodes_def Let_def)
  next
    case 3
    then have ne: "ls s (Name ''grp_control_rig'') \<noteq> []"
      by (auto simp: name_count_ls)
    from 3 resolve_count [OF a] obtain m where "r1 = Inl (MayaNodeError m)" "t1 = s"
      by auto
    with assms a 3 ne show ?thesis
      by (auto simp: bind_def query_def objExists_def when_do_def delete_objs_def)
  qed
qed

lemma zero_step:
  assumes "xform_os_rotation_zero (Name m) s = (r, t)"
  shows "map nname (nodes t) = map nname (nodes s) \<and> og_root_pos t = og_root_pos s
     \<and> (name_count s m = 1 \<longrightarrow> r = Inr ())
     \<and> (name_count s m \<noteq> 1 \<longrightarrow> (\<exists>e. r = Inl (MayaNodeError e)))"
proof -
  obtain r1 t1 where a: "resolve (Name m) s = (r1, t1)" by force
  have nm: "\<And>i. map nname (nodes (transform i (zero_rotation s) s)) = map nname (nodes s)"
    by (rule nodes_transform_name) (simp add: zero_rotation_def follow_def)
  have og: "\<And>i. og_root_pos (transform i (zero_rotation s) s) = og_root_pos s"
    by (simp add: transform_def split: option.splits)
  from resolve_count [OF a] assms a nm og show ?thesis
    by (cases "name_count s m = 1") (auto simp: xform_os_rotation_zero_def bind_def modify_def)
qed

lemma zero_loop:
  "for_each ns (\<lambda>n. xform_os_rotation_zero (Name (''jnt_'' @ n))) s = (r, t) \<Longrightarrow>
     og_root_pos t = og_root_pos s
     \<and> (list_all (\<lambda>n. name_count s (''jnt_'' @ n) = 1) ns \<longrightarrow> r = Inr ())
     \<and> (\<not> list_all (\<lambda>n. name_count s (''jnt_'' @ n) = 1) ns \<longrightarrow> (\<exists>e. r = Inl (MayaNodeError e)))"
proof (induction ns arbitrary: s)
  case Nil
  then show ?case by (simp add: for_each_def skip_def ret_def)
next
  case (Cons n ns)
  obtain r1 t1 where a: "xform_os_rotation_zero (Name (''jnt_'' @ n)) s = (r1, t1)" by force
  note z = zero_step [OF a]
  show ?case
  proof (cases "name_count s (''jnt_'' @ n) = 1")
    case False
    with z Cons.prems a show ?thesis
      by (auto simp: for_each_def bind_def)
  next
    case True
    with z have r1: "r1 = Inr ()" by simp
    with Cons.prems a have b: "for_each ns (\<lambda>n. xform_os_rotation_zero (Name (''jnt_'' @ n))) t1 = (r, t)"
      by (simp add: for_each_def bind_def)
    from z have "map nname (nodes t1) = map nname (nodes s)" by simp
    then have c: "\<And>k. name_count t1 k = name_count s k"
      by (rule name_count_cong)
    from Cons.IH [OF b] z True show ?thesis
      by (simp add: c)
  qed
qed

lemma hidden_names:
  "map nname (map (\<lambda>x. if nid x \<in> A then x\<lparr>nhidden := b\<rparr> else x) ns) = map nname ns"
  by (induction ns) auto

lemma hidden_outside:
  "map nname (filter (\<lambda>x. nid x \<notin> D) (map (\<lambda>x. if nid x \<in> A then x\<lparr>nhidden := b\<rparr> else x) ns))
     = map nname (filter (\<lambda>x. nid x \<notin> D) ns)"
  by (induction ns) auto

lemma hidden_ids:
  "map nid (filter (\<lambda>x. nname x = n) (map (\<lambda>x. if nid x \<in> A then x\<lparr>nhidden := b\<rparr> else x) ns))
     = map nid (filter (\<lambda>x. nname x = n) ns)"
  by (induction ns) auto

lemma bind_run:
  "f s = (r, t) \<Longrightarrow> bind f g s = (case r of Inl e \<Rightarrow> (Inl e, t) | Inr x \<Rightarrow> g x t)"
  by (simp add: bind_def split: sum.splits)

lemma reset_tail:
  "og_root_pos t = [] \<Longrightarrow>
   seq (bind (query og_root_pos) (\<lambda>og. bind (py_index og k) g) # fs) t = (Inl IndexError, t)"
  by (simp add: bind_def query_def py_index_def raise_def)

lemma reset_jnts_error:
  assumes og: "og_root_pos s = []" and run: "reset_jnts s = (r, s')"
  shows "(reset_ready s \<longrightarrow> r = Inl IndexError)
     \<and> (\<not> reset_ready s \<longrightarrow> (\<exists>m. r = Inl (MayaNodeError m)))"
proof -
  let ?J = "py_slice names 0 31 @ py_slice names 33 57"
  let ?f1 = "modify (\<lambda>s. s\<lparr>basic_ctrl_grp := [], null_grp := [], full_ctrl_grp := []\<rparr>)"
  let ?f2 = "showHidden [Name ''grp_bind_rig'']"
  let ?f3 = "bind (query (\<lambda>s. objExists s (Name ''grp_control_rig''))) (\<lambda>b.
            when_do b (delete_objs [Name ''grp_control_rig'']))"
  let ?f4 = "for_each ?J (\<lambda>n. xform_os_rotation_zero (Name (''jnt_'' @ n)))"
  define rest where "rest = seq [bind (query og_root_pos) (\<lambda>og. bind (py_index og 0) (\<lambda>p0.
            xform_translation_abs (Name (''jnt_'' @ names ! 0)) p0)),
       bind (query og_root_pos) (\<lambda>og. bind (py_index og 1) (\<lambda>p1.
            xform_translation_abs (Name (''jnt_'' @ names ! 1)) p1)),
       print ''!!! Operation: Reset to Skeleton successful.'']"
  have rest: "\<And>t. og_root_pos t = [] \<Longrightarrow> rest t = (Inl IndexError, t)"
    unfolding rest_def by (rule reset_tail)
  have dec: "reset_jnts = bind ?f1 (\<lambda>_. bind ?f2 (\<lambda>_. bind ?f3 (\<lambda>_. bind ?f4 (\<lambda>_. rest))))"
    unfolding reset_jnts_def Let_def rest_def by simp
  define s1 where "s1 = s\<lparr>basic_ctrl_grp := [], null_grp := [], full_ctrl_grp := []\<rparr>"
  have c1: "\<And>n. name_count s1 n = name_count s n"
    by (simp add: s1_def name_count_def named_def)
  obtain r2 s2 where a2: "?f2 s1 = (r2, s2)" by force
  obtain r3 s3 where a3: "?f3 s2 = (r3, s3)" by force
  obtain r4 s4 where a4: "?f4 s3 = (r4, s4)" by force
  note st2 = show_step [OF a2] and st3 = delete_step [OF a3] and st4 = zero_loop [OF a4]
  have b1: "?f1 s = (Inr (), s1)" by (simp add: modify_def s1_def)
  have e1: "bind ?f1 g s = (case Inr () of Inl e \<Rightarrow> (Inl e, s1) | Inr x \<Rightarrow> g x s1)" for g
    by (rule bind_run, rule b1)
  have e2: "bind ?f2 g s1 = (case r2 of Inl e \<Rightarrow> (Inl e, s2) | Inr x \<Rightarrow> g x s2)" for g
    by (rule bind_run, rule a2)
  have e3: "bind ?f3 g s2 = (case r3 of Inl e \<Rightarrow> (Inl e, s3) | Inr x \<Rightarrow> g x s3)" for g
    by (rule bind_run, rule a3)
  have e4: "bind ?f4 g s3 = (case r4 of Inl e \<Rightarrow> (Inl e, s4) | Inr x \<Rightarrow> g x s4)" for g
    by (rule bind_run, rule a4)
  have run1: "reset_jnts s = (case r2 of Inl e \<Rightarrow> (Inl e, s2) | Inr _ \<Rightarrow>
       (case r3 of Inl e \<Rightarrow> (Inl e, s3) | Inr _ \<Rightarrow>
       (case r4 of Inl e \<Rightarrow> (Inl e, s4) | Inr _ \<Rightarrow> rest s4)))"
    unfolding dec
    by (cases r2; cases r3; cases r4) (simp_all only: e1 e2 e3 e4 sum.case)
  show ?thesis
  proof (cases "name_count s ''grp_bind_rig'' = 1")
    case False
    with st2 c1 obtain m where "r2 = Inl (MayaNodeError m)" by auto
    with run run1 have "r = Inl (MayaNodeError m)" by simp
    with False show ?thesis by (simp add: reset_ready_def)
  next
    case True
    with st2 c1 obtain ids where r2: "r2 = Inr ()"
      and s2: "s2 = upd_nodes ids (\<lambda>x. x\<lparr>nhidden := False\<rparr>) s1" by auto
    have n2: "nodes s2 = map (\<lambda>x. if nid x \<in> set ids then x\<lparr>nhidden := False\<rparr> else x) (nodes s)"
      by (simp add: s2 upd_nodes_def s1_def)
    have c2: "\<And>n. name_count s2 n = name_count s n"
      by (rule name_count_cong) (simp only: n2 hidden_names)
    have l2: "ls s2 (Name ''grp_control_rig'') = ls s (Name ''grp_control_rig'')"
      by (simp only: ls_def ref.case n2 hidden_ids)
    have d2: "\<And>D. descendants s2 D = descendants s D"
      by (rule descendants_map [OF n2]) simp_all
    have o2: "map nname (outside_control_rig s2) = map nname (outside_control_rig s)"
      by (simp only: outside_control_rig_def l2 d2 n2 hidden_outside)
    have og2: "og_root_pos s2 = []"
      using og by (simp add: s2 upd_nodes_def s1_def)
    show ?thesis
    proof (cases "name_count s ''grp_control_rig'' \<le> 1")
      case False
      with st3 c2 obtain m where "r3 = Inl (MayaNodeError m)" by auto
      with run run1 r2 have "r = Inl (MayaNodeError m)" by simp
      with False show ?thesis by (simp add: reset_ready_def)
    next
      case c: True
      with st3 c2 have r3: "r3 = Inr ()" and n3: "nodes s3 = outside_control_rig s2"
        and og3: "og_root_pos s3 = []" using og2 by auto
      have c3: "\<And>n. name_count s3 n = length (filter (\<lambda>m. m = n) (map nname (outside_control_rig s)))"
        by (simp add: name_count_names n3 o2)
      have rd: "reset_ready s = list_all (\<lambda>n. name_count s3 (''jnt_'' @ n) = 1) ?J"
        using True c by (simp add: reset_ready_def c3 Let_def)
      from st4 og3 have og4: "og_root_pos s4 = []" by simp
      have run': "reset_jnts s = (case r4 of Inl e \<Rightarrow> (Inl e, s4) | Inr _ \<Rightarrow> (Inl IndexError, s4))"
        by (cases r4) (simp_all add: run1 r2 r3 rest [OF og4])
      show ?thesis
      proof (cases "reset_ready s")
        case True
        with rd st4 have "r4 = Inr ()" by simp
        with run run' True show ?thesis by simp
      next
        case False
        with rd st4 obtain m where "r4 = Inl (MayaNodeError m)" by auto
        with run run' False show ?thesis by auto
      qed
    qed
  qed
qed


text \<open>
  Claim C10, amended. In every session in which \<open>og_root_pos\<close> is empty, \<open>reset_jnts\<close>
  raises. The exception is the \<^verbatim>\<open>IndexError\<close> of \<^verbatim>\<open>og_root_pos[0]\<close> exactly when one object
  is named \<^verbatim>\<open>grp_bind_rig\<close>, at most one is named \<^verbatim>\<open>grp_control_rig\<close>, and each of the 55
  joint names is the name of exactly one object that is not in the hierarchy of
  \<^verbatim>\<open>grp_control_rig\<close>. The reset has then already cleared the controller lists, deleted
  \<^verbatim>\<open>grp_control_rig\<close> and zeroed the rotation of all 55 joints: it is not atomic. In every
  other scene a command of the host raises before \<open>og_root_pos\<close> is read, with the error
  of the host for a name that matches no object or more than one.
\<close>

theorem reset_jnts_fails:
  assumes "og_root_pos s = []" and "reset_jnts s = (r, s')"
  shows "(\<exists>e. r = Inl e)
     \<and> (r = Inl IndexError \<longleftrightarrow> reset_ready s)
     \<and> (r = Inl IndexError \<longrightarrow> reset_post s')
     \<and> (\<not> reset_ready s \<longrightarrow> (\<exists>m. r = Inl (MayaNodeError m)))"
proof -
  note e = reset_jnts_error [OF assms]
  have p: "r = Inl IndexError \<longrightarrow> reset_post s'"
    using assms specD_Inl [OF reset_jnts_spec, of s IndexError s'] by simp
  from e p show ?thesis
    by (cases "reset_ready s") auto
qed

theorem reset_jnts_fails_witness:
  "og_root_pos rigged_scene = [] \<and> reset_ready rigged_scene \<and> \<not> reset_post rigged_scene
   \<and> fst (reset_jnts rigged_scene) = Inl IndexError
   \<and> reset_post (snd (reset_jnts rigged_scene))
   \<and> og_root_pos bind_rig_only = [] \<and> \<not> reset_ready bind_rig_only
   \<and> (\<exists>m. fst (reset_jnts bind_rig_only) = Inl (MayaNodeError m))"
proof -
  have a: "og_root_pos rigged_scene = []"
    by (simp add: rigged_scene_def empty_session_def)
  have b: "reset_ready rigged_scene"
    by code_simp
  have c: "\<not> reset_post rigged_scene"
    by code_simp
  have d: "og_root_pos bind_rig_only = []"
    by (simp add: bind_rig_only_def empty_session_def)
  have e: "\<not> reset_ready bind_rig_only"
    by code_simp
  from reset_jnts_fails [OF a surjective_pairing] reset_jnts_fails [OF d surjective_pairing]
    a b c d e show ?thesis
    by simp
qed

text \<open>The claim as stated fails in the empty scene: the exception there is the host's, for
  the missing \<^verbatim>\<open>grp_bind_rig\<close>, and not an \<^verbatim>\<open>IndexError\<close>.\<close>

theorem reset_jnts_index_error_counterexample:
  "og_root_pos empty_session = []
   \<and> fst (reset_jnts empty_session) = Inl (MayaNodeError ''No object matches name'')
   \<and> fst (reset_jnts empty_session) \<noteq> Inl IndexError"
  by code_simp

subsection \<open>C1: the order of the stages\<close>

lemma objExists_sig:
  "objExists t (Name m) \<longleftrightarrow> m \<in> fst ` set (map sig (nodes t))"
  by (auto simp: objExists_def ls_def sig_def filter_empty_conv image_iff)

lemma objExists_created:
  assumes "map sig (nodes t) = map sig (nodes s) @ joints_of ms"
  shows "objExists t (Name (''loc_'' @ m)) = objExists s (Name (''loc_'' @ m))"
  unfolding objExists_sig assms by (auto simp: joints_of_def)

lemma first_missing_loc_less:
  assumes "k < length names" "first_missing_loc s = k"
  shows "\<not> objExists s (Name (''loc_'' @ names ! k))"
proof -
  let ?P = "\<lambda>m. objExists s (Name (''loc_'' @ m))"
  from assms have "length (takeWhile ?P names) < length names"
    by (simp add: first_missing_loc_def)
  then have "\<not> ?P (names ! length (takeWhile ?P names))"
    by (rule nth_length_takeWhile)
  with assms show ?thesis by (simp add: first_missing_loc_def)
qed

lemma object_check_cases:
  "object_check r s = (Inr (), s) \<and> objExists s r \<or> (\<exists>e. object_check r s = (Inl e, s))"
  by (auto simp: object_check_def Let_def)

lemma non_object_check_cases:
  "non_object_check r s = (Inr (), s) \<and> \<not> objExists s r \<or> (\<exists>e. non_object_check r s = (Inl e, s))"
  by (auto simp: non_object_check_def)

lemma sig_transform:
  "(\<And>x. sig (f x) = sig x) \<Longrightarrow> map sig (nodes (transform i f s)) = map sig (nodes s)"
  by (auto simp: transform_def follow_def sig_def split: option.splits)

lemma snap_point_sig:
  "snap_point a b s = (r, t) \<Longrightarrow> map sig (nodes t) = map sig (nodes s)"
  by (auto simp: snap_point_def bind_def modify_def resolve_def sig_transform sig_def
      split: list.splits option.splits prod.splits sum.splits)

lemma joint_create_sig:
  assumes "\<not> objExists s (Name n)" and "joint_create n s = (r, t)"
  shows "map sig (nodes t) = map sig (nodes s) @ [(n, Joint)] \<and> (\<exists>j. r = Inr j)"
proof -
  from assms(1) have "named s n = []"
    by (simp add: objExists_def ls_def named_def)
  then have "fresh_name s n = n" by (rule fresh_name_free)
  with assms(2) show ?thesis
    by (auto simp: joint_create_def create_node_def Let_def blank_node_def sig_def)
qed


lemma split_take:
  "ns = ys @ x # zs \<Longrightarrow>
     take (Suc (length ys)) ns = take (length ys) ns @ [x] \<and> ns ! length ys = x \<and> length ys < length ns"
  by (simp add: take_Suc_conv_app_nth)

lemma created_upto_take:
  assumes "names = ys @ x # zs"
  shows "take (Suc (length ys)) names = take (length ys) names @ [x]" "names ! length ys = x"
    "length ys < length names"
  using split_take [OF assms] by blast+

lemma jnt_step_object_check:
  assumes n: "names = ys @ x # zs"
  shows "spec (created_upto s (length ys)) (object_check (Name (''loc_'' @ x)))
           (\<lambda>_ t. created_upto s (length ys) t \<and> Suc (length ys) \<le> first_missing_loc s)
           (\<lambda>e t. \<exists>k. created_upto s k t)"
proof (rule specI)
  fix t r t' assume pre: "created_upto s (length ys) t"
    and run: "object_check (Name (''loc_'' @ x)) t = (Inr r, t')"
  from object_check_cases [of "Name (''loc_'' @ x)" t] run
  have t': "t' = t" and ex: "objExists t (Name (''loc_'' @ x))" by auto
  from pre have "objExists t (Name (''loc_'' @ x)) = objExists s (Name (''loc_'' @ x))"
    by (intro objExists_created) (simp add: created_upto_def)
  with ex have exs: "objExists s (Name (''loc_'' @ x))" by simp
  have "first_missing_loc s \<noteq> length ys"
  proof
    assume "first_missing_loc s = length ys"
    from first_missing_loc_less [OF created_upto_take(3) [OF n] this] exs
    show False by (simp add: created_upto_take(2) [OF n])
  qed
  with pre show "created_upto s (length ys) t' \<and> Suc (length ys) \<le> first_missing_loc s"
    by (simp add: t' created_upto_def)
next
  fix t e t' assume pre: "created_upto s (length ys) t"
    and run: "object_check (Name (''loc_'' @ x)) t = (Inl e, t')"
  from object_check_cases [of "Name (''loc_'' @ x)" t] run have "t' = t" by auto
  with pre show "\<exists>k. created_upto s k t'" by blast
qed

lemma jnt_step_non_object_check:
  "spec (\<lambda>t. created_upto s n t \<and> Suc n \<le> first_missing_loc s)
        (non_object_check (Name (''jnt_'' @ x)))
        (\<lambda>_ t. created_upto s n t \<and> Suc n \<le> first_missing_loc s \<and> \<not> objExists t (Name (''jnt_'' @ x)))
        (\<lambda>e t. \<exists>k. created_upto s k t)"
proof (rule specI)
  fix t r t' assume "created_upto s n t \<and> Suc n \<le> first_missing_loc s"
    and "non_object_check (Name (''jnt_'' @ x)) t = (Inr r, t')"
  with non_object_check_cases [of "Name (''jnt_'' @ x)" t]
  show "created_upto s n t' \<and> Suc n \<le> first_missing_loc s \<and> \<not> objExists t' (Name (''jnt_'' @ x))"
    by auto
next
  fix t e t' assume "created_upto s n t \<and> Suc n \<le> first_missing_loc s"
    and "non_object_check (Name (''jnt_'' @ x)) t = (Inl e, t')"
  with non_object_check_cases [of "Name (''jnt_'' @ x)" t]
  show "\<exists>k. created_upto s k t'" by auto
qed

lemma jnt_step_create:
  assumes n: "names = ys @ x # zs"
  shows "spec (\<lambda>t. created_upto s (length ys) t \<and> Suc (length ys) \<le> first_missing_loc s
                \<and> \<not> objExists t (Name (''jnt_'' @ x)))
           (joint_create (''jnt_'' @ x))
           (\<lambda>_. created_upto s (Suc (length ys)))
           (\<lambda>e t. \<exists>k. created_upto s k t)"
proof (rule specI)
  fix t r t' assume pre: "created_upto s (length ys) t \<and> Suc (length ys) \<le> first_missing_loc s
                \<and> \<not> objExists t (Name (''jnt_'' @ x))"
    and run: "joint_create (''jnt_'' @ x) t = (Inr r, t')"
  from joint_create_sig [OF _ run] pre
  show "created_upto s (Suc (length ys)) t'"
    by (simp add: created_upto_def created_upto_take(1) [OF n] joints_of_def)
next
  fix t e t' assume pre: "created_upto s (length ys) t \<and> Suc (length ys) \<le> first_missing_loc s
                \<and> \<not> objExists t (Name (''jnt_'' @ x))"
    and run: "joint_create (''jnt_'' @ x) t = (Inl e, t')"
  from joint_create_sig [OF _ run] pre show "\<exists>k. created_upto s k t'" by auto
qed

lemma jnt_step_keep:
  assumes "\<And>t r t'. f t = (r, t') \<Longrightarrow> map sig (nodes t') = map sig (nodes t)"
  shows "spec (created_upto s n) f (\<lambda>_. created_upto s n) (\<lambda>e t. \<exists>k. created_upto s k t)"
proof (rule specI)
  fix t r t' assume "created_upto s n t" "f t = (Inr r, t')"
  with assms [of t "Inr r" t'] show "created_upto s n t'"
    by (simp add: created_upto_def)
next
  fix t e t' assume "created_upto s n t" "f t = (Inl e, t')"
  with assms [of t "Inl e" t'] have "created_upto s n t'"
    by (simp add: created_upto_def)
  then show "\<exists>k. created_upto s k t'" by blast
qed

lemma jnt_step:
  assumes n: "names = ys @ x # zs"
  shows "spec (created_upto s (length ys))
     (seq [object_check (Name (''loc_'' @ x)),
           non_object_check (Name (''jnt_'' @ x)),
           select_clear,
           bind (joint_create (''jnt_'' @ x)) (\<lambda>jnt.
             seq [snap_point (Name (''loc_'' @ x)) (PyNode jnt),
                  modify (\<lambda>s. s\<lparr>jnts := jnts s @ [jnt]\<rparr>)])])
     (\<lambda>_. created_upto s (length (ys @ [x]))) (\<lambda>e t. \<exists>k. created_upto s k t)"
  apply (rule spec_seq_Cons)
   apply (rule jnt_step_object_check [OF n])
  apply (rule spec_seq_Cons)
   apply (rule jnt_step_non_object_check)
  apply (rule spec_seq_Cons [where R = "\<lambda>t. created_upto s (length ys) t
            \<and> Suc (length ys) \<le> first_missing_loc s \<and> \<not> objExists t (Name (''jnt_'' @ x))"])
   apply (rule specI; auto simp: select_clear_def modify_def created_upto_def objExists_def ls_def)
  apply (rule spec_seq_Cons [where R = "created_upto s (Suc (length ys))"])
   apply (rule spec_bind)
    apply (rule jnt_step_create [OF n])
   apply (rule spec_seq_Cons [where R = "created_upto s (Suc (length ys))"])
    apply (rule jnt_step_keep, erule snap_point_sig)
   apply (rule spec_seq_Cons [where R = "created_upto s (Suc (length ys))"])
    apply (rule jnt_step_keep)
    apply (auto simp: modify_def)[1]
   apply (rule specI; auto simp: skip_def ret_def)
  apply (rule specI; auto simp: skip_def ret_def)
  done

lemma created_upto_all:
  "created_upto s (length names) t \<Longrightarrow> first_missing_loc s < length names \<Longrightarrow> False"
  by (simp add: created_upto_def)

lemma jnt_creation_missing:
  assumes "first_missing_loc s < length names"
  shows "spec (created_upto s 0) jnt_creation (\<lambda>_ _. False) (\<lambda>e t. \<exists>k. created_upto s k t)"
  unfolding jnt_creation_def
  apply (rule spec_seq_Cons [where R = "created_upto s (length names)"])
   apply (rule spec_weaken [OF spec_for_each_prefix [where I = "\<lambda>ys. created_upto s (length ys)"]])
      apply (rule jnt_step, assumption)
     apply simp
    apply simp
   apply assumption
  apply (rule spec_weaken [OF spec_False])
  using assms apply (auto dest: created_upto_all)
  done


lemma create_joint_hierarchy_missing:
  assumes "first_missing_loc s < length names"
  shows "spec (\<lambda>t. t = s) create_joint_hierarchy (\<lambda>_ _. False) (\<lambda>e t. \<exists>k. created_upto s k t)"
  unfolding create_joint_hierarchy_def cjh_limbs_def append_Cons append_Nil
  apply (rule spec_seq_Cons [where R = "created_upto s 0"])
   apply (rule specI; auto simp: emit_def modify_def created_upto_def joints_of_def)
  apply (rule spec_seq_Cons [where R = "created_upto s 0"])
   apply (rule specI; auto simp: modify_def created_upto_def)
  apply (rule spec_seq_Cons [where R = "\<lambda>_. False"])
   apply (rule jnt_creation_missing [OF assms])
  apply (rule spec_False)
  done

lemma for_each_object_check:
  "for_each xs (\<lambda>x. object_check (f x)) t = (r, t') \<Longrightarrow>
     t' = t \<and> (r = Inr () \<longrightarrow> list_all (\<lambda>x. objExists t (f x)) xs)"
proof (induction xs arbitrary: r t')
  case Nil
  then show ?case by (simp add: for_each_def skip_def ret_def)
next
  case (Cons x xs)
  from object_check_cases [of "f x" t] show ?case
  proof
    assume a: "object_check (f x) t = (Inr (), t) \<and> objExists t (f x)"
    with Cons.prems have "for_each xs (\<lambda>x. object_check (f x)) t = (r, t')"
      by (simp add: for_each_def bind_def)
    from Cons.IH [OF this] a show ?case by simp
  next
    assume "\<exists>e. object_check (f x) t = (Inl e, t)"
    with Cons.prems show ?case
      by (auto simp: for_each_def bind_def)
  qed
qed

lemma create_control_rig_missing:
  assumes "\<not> list_all (\<lambda>n. objExists s (Name (''jnt_'' @ n))) (py_slice names 0 31 @ py_slice names 33 57)"
  shows "spec (\<lambda>t. nodes t = nodes s) create_control_rig (\<lambda>_ _. False) (\<lambda>e t. nodes t = nodes s)"
  unfolding create_control_rig_def
proof (rule spec_seq_Cons [where R = "\<lambda>_. False"])
  show "spec (\<lambda>t. nodes t = nodes s)
     (for_each (py_slice names 0 31 @ py_slice names 33 57)
       (\<lambda>check_jnt. object_check (Name (''jnt_'' @ check_jnt))))
     (\<lambda>_ _. False) (\<lambda>e t. nodes t = nodes s)"
  proof (rule specI)
    fix t r t' assume n: "nodes t = nodes s"
      and run: "for_each (py_slice names 0 31 @ py_slice names 33 57)
       (\<lambda>check_jnt. object_check (Name (''jnt_'' @ check_jnt))) t = (Inr r, t')"
    from n have "\<And>m. objExists t (Name m) = objExists s (Name m)"
      by (simp add: objExists_def ls_def)
    with for_each_object_check [OF run] assms show False by simp
  next
    fix t e t' assume n: "nodes t = nodes s"
      and run: "for_each (py_slice names 0 31 @ py_slice names 33 57)
       (\<lambda>check_jnt. object_check (Name (''jnt_'' @ check_jnt))) t = (Inl e, t')"
    from for_each_object_check [OF run] n show "nodes t' = nodes s" by simp
  qed
qed (rule spec_False)

lemma ctrl_creation_missing:
  assumes "\<not> list_all (\<lambda>n. objExists s (Name (''jnt_'' @ n))) (py_slice names 0 31 @ py_slice names 33 57)"
  shows "spec (\<lambda>t. t = s) ctrl_creation (\<lambda>_ _. False) (\<lambda>e t. nodes t = nodes s)"
  unfolding ctrl_creation_def
  apply (rule spec_seq_Cons [where R = "\<lambda>t. nodes t = nodes s"])
   apply (rule specI; auto simp: emit_def modify_def)
  apply (rule spec_seq_Cons [where R = "\<lambda>t. nodes t = nodes s"])
   apply (rule specI; auto simp: modify_def)
  apply (rule spec_seq_Cons [where R = "\<lambda>_. False"])
   apply (rule create_control_rig_missing [OF assms])
  apply (rule spec_False)
  done

text \<open>
  Claim C1, amended. When the locator of some name is missing, \<open>create_joint_hierarchy\<close>
  raises, and what it has created by then are the joints \<^verbatim>\<open>jnt_<name>\<close> of names that come
  before the first missing locator in the name list, in this order, and nothing else (so
  no joint at all when \<^verbatim>\<open>loc_c_root\<close> is missing). When one of the 55 joints is missing,
  \<open>ctrl_creation\<close> raises with the objects of the scene unchanged: nothing was duplicated or
  created. So no stage completes before the objects of the previous stage exist.
\<close>

theorem stages_need_previous_objects:
  "(first_missing_loc s < length names \<longrightarrow>
      (\<exists>e s' k. create_joint_hierarchy s = (Inl e, s') \<and> k \<le> first_missing_loc s
         \<and> map sig (nodes s') = map sig (nodes s) @ joints_of (take k names)))
   \<and> (\<not> list_all (\<lambda>n. objExists s (Name (''jnt_'' @ n))) (py_slice names 0 31 @ py_slice names 33 57) \<longrightarrow>
      (\<exists>e s'. ctrl_creation s = (Inl e, s') \<and> nodes s' = nodes s))"
proof (intro conjI impI)
  assume a: "first_missing_loc s < length names"
  obtain r s' where run: "create_joint_hierarchy s = (r, s')" by force
  show "\<exists>e s' k. create_joint_hierarchy s = (Inl e, s') \<and> k \<le> first_missing_loc s
         \<and> map sig (nodes s') = map sig (nodes s) @ joints_of (take k names)"
  proof (cases r)
    case (Inl e)
    with run specD_Inl [OF create_joint_hierarchy_missing [OF a], of s e s']
    show ?thesis by (auto simp: created_upto_def)
  next
    case (Inr x)
    with run specD_Inr [OF create_joint_hierarchy_missing [OF a], of s x s']
    show ?thesis by simp
  qed
next
  assume a: "\<not> list_all (\<lambda>n. objExists s (Name (''jnt_'' @ n))) (py_slice names 0 31 @ py_slice names 33 57)"
  obtain r s' where run: "ctrl_creation s = (r, s')" by force
  show "\<exists>e s'. ctrl_creation s = (Inl e, s') \<and> nodes s' = nodes s"
  proof (cases r)
    case (Inl e)
    with run specD_Inl [OF ctrl_creation_missing [OF a], of s e s']
    show ?thesis by auto
  next
    case (Inr x)
    with run specD_Inr [OF ctrl_creation_missing [OF a], of s x s']
    show ?thesis by simp
  qed
qed

theorem stages_need_previous_objects_witness:
  "first_missing_loc one_loc_scene = 1
   \<and> \<not> list_all (\<lambda>n. objExists one_loc_scene (Name (''jnt_'' @ n))) (py_slice names 0 31 @ py_slice names 33 57)
   \<and> (\<exists>e s' k. create_joint_hierarchy one_loc_scene = (Inl e, s') \<and> k \<le> 1
         \<and> map sig (nodes s') = map sig (nodes one_loc_scene) @ joints_of (take k names))
   \<and> (\<exists>e s'. ctrl_creation one_loc_scene = (Inl e, s') \<and> nodes s' = nodes one_loc_scene)"
proof -
  have a: "first_missing_loc one_loc_scene = 1"
    by code_simp
  have b: "\<not> list_all (\<lambda>n. objExists one_loc_scene (Name (''jnt_'' @ n))) (py_slice names 0 31 @ py_slice names 33 57)"
    by code_simp
  have c: "(1::nat) < length names"
    by code_simp
  from stages_need_previous_objects [of one_loc_scene] a b c show ?thesis
    by simp
qed

text \<open>The claim as stated fails where only \<^verbatim>\<open>loc_c_root\<close> exists: the exception for the
  missing \<^verbatim>\<open>loc_c_hips\<close> comes after the joint \<^verbatim>\<open>jnt_c_root\<close> was created.\<close>

theorem joint_created_before_raise_counterexample:
  "\<not> objExists one_loc_scene (Name ''loc_c_hips'')
   \<and> fst (create_joint_hierarchy one_loc_scene) =
        Inl (Exception (''!!! Error: '' @ sq @ ''loc_c_hips'' @ sq @ '' doesn'' @ sq @ ''t exist.''))
   \<and> map sig (nodes one_loc_scene) = [(''loc_c_root'', Locator)]
   \<and> map sig (nodes (snd (create_joint_hierarchy one_loc_scene))) =
        [(''loc_c_root'', Locator), (''jnt_c_root'', Joint)]"
  by code_simp

end
